theory Spec2Isabelle
  imports Complex_Main "HOL-Library.Word"
begin

section \<open>JavaScript strings\<close>

text \<open>
  A JavaScript string is a sequence of UTF-16 code units. The string literals of
  \<^verbatim>\<open>App.tsx\<close> are ASCII; \<open>lit\<close> turns an ASCII literal into its code units.
\<close>

type_synonym js_string = "16 word list"

definition lit :: "string \<Rightarrow> js_string" where
  "lit cs = map of_char cs"

text \<open>
  \<^verbatim>\<open>String.prototype.trim\<close> removes leading and trailing WhiteSpace and LineTerminator
  code points (ECMAScript 12.2, 12.3): TAB, LF, VT, FF, CR, SP, NBSP, the category Zs and
  ZWNBSP. All of them are single code units.
\<close>

definition is_white_space :: "16 word \<Rightarrow> bool" where
  "is_white_space c \<longleftrightarrow>
     c \<in> set [0x0009, 0x000A, 0x000B, 0x000C, 0x000D, 0x0020, 0x00A0, 0x1680,
              0x2000, 0x2001, 0x2002, 0x2003, 0x2004, 0x2005, 0x2006, 0x2007,
              0x2008, 0x2009, 0x200A, 0x2028, 0x2029, 0x202F, 0x205F, 0x3000, 0xFEFF]"

definition trim :: "js_string \<Rightarrow> js_string" where
  "trim v = rev (dropWhile is_white_space (rev (dropWhile is_white_space v)))"

section \<open>JavaScript values\<close>

text \<open>
  The responses are typed \<^verbatim>\<open>any\<close>: a parsed JSON document, or \<^verbatim>\<open>undefined\<close> where a
  property is missing. A number is carried as the rational it denotes; the program never
  computes with one. An object is the list of its own properties.
\<close>

datatype js_value =
    JUndefined
  | JNull
  | JBool bool
  | JNum rat
  | JStr js_string
  | JArr "js_value list"
  | JObj "(js_string \<times> js_value) list"

datatype js_error = TypeError | AxiosError

text \<open>
  \<open>get_prop v k\<close> is the read \<^verbatim>\<open>v.k\<close> for the named keys this program reads
  (\<^verbatim>\<open>list\<close>, \<^verbatim>\<open>coord\<close>, \<^verbatim>\<open>lat\<close>, \<^verbatim>\<open>lon\<close>, \<^verbatim>\<open>weather\<close>, \<^verbatim>\<open>icon\<close>, \<^verbatim>\<open>description\<close>,
  \<^verbatim>\<open>name\<close>, \<^verbatim>\<open>main\<close>, \<^verbatim>\<open>temp\<close>, \<^verbatim>\<open>dt_txt\<close>): none is an inherited property of a JSON
  value, so the read throws on \<^verbatim>\<open>undefined\<close> and \<^verbatim>\<open>null\<close>, finds an own property of an
  object, and is \<^verbatim>\<open>undefined\<close> otherwise.
\<close>

fun get_prop :: "js_value \<Rightarrow> js_string \<Rightarrow> js_error + js_value" where
  "get_prop JUndefined k = Inl TypeError"
| "get_prop JNull k = Inl TypeError"
| "get_prop (JObj kvs) k = Inr (case map_of kvs k of None \<Rightarrow> JUndefined | Some x \<Rightarrow> x)"
| "get_prop v k = Inr JUndefined"

text \<open>\<open>get_index0 v\<close> is the read \<^verbatim>\<open>v[0]\<close>.\<close>

fun get_index0 :: "js_value \<Rightarrow> js_error + js_value" where
  "get_index0 JUndefined = Inl TypeError"
| "get_index0 JNull = Inl TypeError"
| "get_index0 (JArr xs) = Inr (case xs of [] \<Rightarrow> JUndefined | x # _ \<Rightarrow> x)"
| "get_index0 (JStr cs) = Inr (case cs of [] \<Rightarrow> JUndefined | c # _ \<Rightarrow> JStr [c])"
| "get_index0 (JObj kvs) = Inr (case map_of kvs (lit ''0'') of None \<Rightarrow> JUndefined | Some x \<Rightarrow> x)"
| "get_index0 v = Inr JUndefined"

text \<open>A chain of reads \<^verbatim>\<open>v.a.b\<close>: the first read that throws ends it.\<close>

fun get_path :: "js_value \<Rightarrow> js_string list \<Rightarrow> js_error + js_value" where
  "get_path v [] = Inr v"
| "get_path v (k # ks) = (case get_prop v k of Inl e \<Rightarrow> Inl e | Inr x \<Rightarrow> get_path x ks)"

section \<open>Forecast sampler\<close>

text \<open>
  \<^verbatim>\<open>Array.prototype.filter\<close> calls its callback with the element and its index, in
  index order, and keeps the elements for which it returns true.
\<close>

fun filter_from :: "('a \<Rightarrow> nat \<Rightarrow> bool) \<Rightarrow> nat \<Rightarrow> 'a list \<Rightarrow> 'a list" where
  "filter_from p idx [] = []"
| "filter_from p idx (x # xs) =
     (if p x idx then x # filter_from p (Suc idx) xs else filter_from p (Suc idx) xs)"

definition js_filter :: "('a \<Rightarrow> nat \<Rightarrow> bool) \<Rightarrow> 'a list \<Rightarrow> 'a list" where
  "js_filter p xs = filter_from p 0 xs"

text \<open>Line 129: \<^verbatim>\<open>list.filter((_, idx) => idx % 8 === 0)\<close>.\<close>

definition dailyData :: "'a list \<Rightarrow> 'a list" where
  "dailyData xs = js_filter (\<lambda>_ idx. idx mod 8 = 0) xs"

text \<open>
  \<^verbatim>\<open>forecastData.data.list.filter(...)\<close> on the untyped response: the call throws unless
  \<^verbatim>\<open>list\<close> is an array.
\<close>

definition sample_forecast :: "js_value \<Rightarrow> js_error + js_value list" where
  "sample_forecast data =
     (case get_prop data (lit ''list'') of
        Inl e \<Rightarrow> Inl e
      | Inr l \<Rightarrow> (case l of JArr xs \<Rightarrow> Inr (dailyData xs) | _ \<Rightarrow> Inl TypeError))"

section \<open>Unit state holder\<close>

text \<open>Line 214: \<^verbatim>\<open>prev === "metric" ? "imperial" : "metric"\<close>.\<close>

definition toggle :: "js_string \<Rightarrow> js_string" where
  "toggle prev = (if prev = lit ''metric'' then lit ''imperial'' else lit ''metric'')"

section \<open>Form validator\<close>

text \<open>
  The schema \<^verbatim>\<open>Yup.string().trim().required("Please enter a city name.")\<close>: the value is
  trimmed, and \<^verbatim>\<open>required\<close> rejects a string of length 0. (Formik hands an empty field to
  Yup as \<^verbatim>\<open>undefined\<close>, which \<^verbatim>\<open>required\<close> rejects with the same message.) The result is
  \<^verbatim>\<open>formik.errors.cityName\<close>.
\<close>

definition validation_msg :: js_string where
  "validation_msg = lit ''Please enter a city name.''"

definition validate_cityName :: "js_string \<Rightarrow> js_string option" where
  "validate_cityName v = (if trim v = [] then Some validation_msg else None)"

section \<open>Weather client\<close>

definition API_TOKEN :: "js_string option" where
  "API_TOKEN = Some (lit ''532e524ebf5657e44968d0cc21a1d155'')"

definition missing_key_msg :: js_string where
  "missing_key_msg = lit ''API key is missing. Please check your .env configuration.''"

definition fetch_failed_msg :: js_string where
  "fetch_failed_msg =
     lit ''Oops! Couldn't retrieve data. Please double-check the city name or try again later.''"

text \<open>
  The credential is a parameter of the handler: line 96 binds it to a literal and keeps the
  environment variable it replaced in a comment, and an environment variable may be
  \<^verbatim>\<open>undefined\<close> (\<open>None\<close>). \<open>interp\<close> is its interpolation into a template literal.
\<close>

definition interp :: "js_string option \<Rightarrow> js_string" where
  "interp tok = (case tok of None \<Rightarrow> lit ''undefined'' | Some t \<Rightarrow> t)"

definition weather_url :: "js_string option \<Rightarrow> js_string \<Rightarrow> js_string \<Rightarrow> js_string" where
  "weather_url tok cityName u =
     lit ''https://api.openweathermap.org/data/2.5/weather?q='' @ cityName
       @ lit ''&appid='' @ interp tok @ lit ''&units='' @ u"

definition forecast_url :: "js_string option \<Rightarrow> js_string \<Rightarrow> js_string \<Rightarrow> js_string" where
  "forecast_url tok cityName u =
     lit ''https://api.openweathermap.org/data/2.5/forecast?q='' @ cityName
       @ lit ''&appid='' @ interp tok @ lit ''&units='' @ u"

text \<open>
  What the network does with a request, and what \<^verbatim>\<open>axios.get\<close> makes of it: the promise
  resolves with the parsed body when the status is 2xx and rejects otherwise.
\<close>

datatype http_outcome = NetworkError | HttpResponse nat js_value

fun axios_get :: "http_outcome \<Rightarrow> js_error + js_value" where
  "axios_get NetworkError = Inl AxiosError"
| "axios_get (HttpResponse status body) =
     (if 200 \<le> status \<and> status < 300 then Inr body else Inl AxiosError)"

section \<open>Application state\<close>

record weather_data =
  now :: js_value
  future :: "js_value list"

record lat_lon =
  lat :: js_value
  lon :: js_value

text \<open>
  A call of \<^verbatim>\<open>onSubmit\<close> suspended at an \<^verbatim>\<open>await\<close>, with what its closure holds:
  \<^verbatim>\<open>cityName\<close>, the \<^verbatim>\<open>unit\<close> of the render that created the handler and, at the second
  \<^verbatim>\<open>await\<close>, \<^verbatim>\<open>currentData.data\<close>.
\<close>

datatype task =
    AwaitCurrent js_string js_string
  | AwaitForecast js_string js_string js_value

text \<open>
  The three \<^verbatim>\<open>useState\<close> cells of \<^verbatim>\<open>WeatherApp\<close>, the cell of \<^verbatim>\<open>UnitProvider\<close>,
  \<^verbatim>\<open>formik.errors.cityName\<close>, the requests sent so far (oldest first) and the handler
  calls in flight.
\<close>

record app_state =
  weather :: "weather_data option"
  location :: lat_lon
  fetchError :: js_string
  unit :: js_string
  errors_cityName :: "js_string option"
  requests :: "js_string list"
  pending :: "task list"

definition initial_state :: app_state where
  "initial_state =
     \<lparr>weather = None, location = \<lparr>lat = JNum 0, lon = JNum 0\<rparr>, fetchError = [],
      unit = lit ''metric'', errors_cityName = None, requests = [], pending = []\<rparr>"

text \<open>Lines 115-124: \<^verbatim>\<open>onSubmit\<close> up to its first \<^verbatim>\<open>await\<close>.\<close>

definition onSubmit :: "js_string option \<Rightarrow> app_state \<Rightarrow> js_string \<Rightarrow> app_state" where
  "onSubmit tok s cityName =
     (if tok = None \<or> tok = Some [] then s\<lparr>fetchError := missing_key_msg\<rparr>
      else s\<lparr>requests := requests s @ [weather_url tok cityName (unit s)],
             pending := pending s @ [AwaitCurrent cityName (unit s)]\<rparr>)"

text \<open>Lines 131-144, once both responses are there.\<close>

definition finish :: "js_value \<Rightarrow> js_value \<Rightarrow> app_state \<Rightarrow> app_state" where
  "finish cur fdata s =
     (case sample_forecast fdata of
        Inl e \<Rightarrow> s\<lparr>fetchError := fetch_failed_msg\<rparr>
      | Inr daily \<Rightarrow>
          (let s1 = s\<lparr>weather := Some \<lparr>now = cur, future = daily\<rparr>\<rparr> in
           case get_path cur [lit ''coord'', lit ''lat''] of
             Inl e \<Rightarrow> s1\<lparr>fetchError := fetch_failed_msg\<rparr>
           | Inr la \<Rightarrow>
               (case get_path cur [lit ''coord'', lit ''lon''] of
                  Inl e \<Rightarrow> s1\<lparr>fetchError := fetch_failed_msg\<rparr>
                | Inr lo \<Rightarrow> s1\<lparr>location := \<lparr>lat = la, lon = lo\<rparr>, fetchError := []\<rparr>)))"

text \<open>
  Lines 122-144: a suspended call receives the outcome of the request it waits for. It
  either suspends again (\<open>Some\<close>) or ends.
\<close>

fun resume :: "js_string option \<Rightarrow> task \<Rightarrow> http_outcome \<Rightarrow> app_state \<Rightarrow> task option \<times> app_state" where
  "resume tok (AwaitCurrent cityName u) out s =
     (case axios_get out of
        Inl e \<Rightarrow> (None, s\<lparr>fetchError := fetch_failed_msg\<rparr>)
      | Inr cur \<Rightarrow>
          (Some (AwaitForecast cityName u cur),
           s\<lparr>requests := requests s @ [forecast_url tok cityName u]\<rparr>))"
| "resume tok (AwaitForecast cityName u cur) out s =
     (case axios_get out of
        Inl e \<Rightarrow> (None, s\<lparr>fetchError := fetch_failed_msg\<rparr>)
      | Inr fdata \<Rightarrow> (None, finish cur fdata s))"

section \<open>Events\<close>

text \<open>
  What happens to the page: the form is submitted with the text \<open>v\<close> in its field, the
  toggle button is pressed, or the request of the \<open>i\<close>-th call in flight completes.
  \<^verbatim>\<open>formik.handleSubmit\<close> validates the field and calls \<^verbatim>\<open>onSubmit\<close> with the form's
  values, as they are in the field, only when there is no error.
\<close>

datatype event = Submit js_string | Toggle | Respond nat http_outcome

definition step_with :: "js_string option \<Rightarrow> app_state \<Rightarrow> event \<Rightarrow> app_state" where
  "step_with tok s ev =
     (case ev of
        Submit v \<Rightarrow>
          (case validate_cityName v of
             Some msg \<Rightarrow> s\<lparr>errors_cityName := Some msg\<rparr>
           | None \<Rightarrow> onSubmit tok (s\<lparr>errors_cityName := None\<rparr>) v)
      | Toggle \<Rightarrow> s\<lparr>unit := toggle (unit s)\<rparr>
      | Respond i out \<Rightarrow>
          (if i < length (pending s) then
             (case resume tok (pending s ! i) out s of
                (None, s') \<Rightarrow> s'\<lparr>pending := take i (pending s) @ drop (Suc i) (pending s)\<rparr>
              | (Some t, s') \<Rightarrow> s'\<lparr>pending := (pending s)[i := t]\<rparr>)
           else s))"

definition step :: "app_state \<Rightarrow> event \<Rightarrow> app_state" where
  "step = step_with API_TOKEN"

definition run :: "app_state \<Rightarrow> event list \<Rightarrow> app_state" where
  "run s evs = foldl step s evs"

section \<open>Presentation layer\<close>

text \<open>
  What a render of \<^verbatim>\<open>WeatherApp\<close> shows, as the values it places in the page: the field
  error, the label of the toggle button, the fetch error, and under \<^verbatim>\<open>weather &&\<close> the
  icon code, the description, the name, the temperature with its suffix, the chart's
  points (the \<^verbatim>\<open>dt_txt\<close> given to \<^verbatim>\<open>Date\<close> and the temperature) and the map's centre.
  A render that reads a property of \<^verbatim>\<open>undefined\<close> throws.
\<close>

record weather_view =
  icon :: js_value
  description :: js_value
  name :: js_value
  temp :: js_value
  suffix :: js_string
  chart :: "(js_value \<times> js_value) list"
  center :: lat_lon

record view =
  field_error :: "js_string option"
  toggle_label :: js_string
  error_text :: "js_string option"
  weather_block :: "weather_view option"

fun chart_points :: "js_value list \<Rightarrow> js_error + (js_value \<times> js_value) list" where
  "chart_points [] = Inr []"
| "chart_points (item # items) =
     (case get_prop item (lit ''dt_txt'') of
        Inl e \<Rightarrow> Inl e
      | Inr d \<Rightarrow>
          (case get_path item [lit ''main'', lit ''temp''] of
             Inl e \<Rightarrow> Inl e
           | Inr t \<Rightarrow>
               (case chart_points items of
                  Inl e \<Rightarrow> Inl e
                | Inr ps \<Rightarrow> Inr ((d, t) # ps))))"

text \<open>Line 183: \<^verbatim>\<open>unit === "metric" ? "C" : "F"\<close>.\<close>

definition unit_suffix :: "js_string \<Rightarrow> js_string" where
  "unit_suffix u = (if u = lit ''metric'' then lit ''C'' else lit ''F'')"

definition render_weather :: "js_string \<Rightarrow> lat_lon \<Rightarrow> weather_data \<Rightarrow> js_error + weather_view" where
  "render_weather u loc w =
     (case get_prop (now w) (lit ''weather'') of
        Inl e \<Rightarrow> Inl e
      | Inr ws \<Rightarrow>
     (case get_index0 ws of
        Inl e \<Rightarrow> Inl e
      | Inr w0 \<Rightarrow>
     (case get_prop w0 (lit ''icon'') of
        Inl e \<Rightarrow> Inl e
      | Inr ic \<Rightarrow>
     (case get_prop w0 (lit ''description'') of
        Inl e \<Rightarrow> Inl e
      | Inr de \<Rightarrow>
     (case get_prop (now w) (lit ''name'') of
        Inl e \<Rightarrow> Inl e
      | Inr nm \<Rightarrow>
     (case get_path (now w) [lit ''main'', lit ''temp''] of
        Inl e \<Rightarrow> Inl e
      | Inr tp \<Rightarrow>
     (case chart_points (future w) of
        Inl e \<Rightarrow> Inl e
      | Inr ps \<Rightarrow>
          Inr \<lparr>icon = ic, description = de, name = nm, temp = tp,
               suffix = unit_suffix u, chart = ps, center = loc\<rparr>)))))))"

definition render :: "app_state \<Rightarrow> js_error + view" where
  "render s =
     (let fe = (case errors_cityName s of None \<Rightarrow> None
                | Some m \<Rightarrow> if m = [] then None else Some m);
          lbl = lit ''Change to ''
                  @ (if unit s = lit ''metric'' then lit ''Fahrenheit'' else lit ''Celsius'');
          et = (if fetchError s = [] then None else Some (fetchError s))
      in case weather s of
           None \<Rightarrow> Inr \<lparr>field_error = fe, toggle_label = lbl, error_text = et,
                        weather_block = None\<rparr>
         | Some w \<Rightarrow>
             (case render_weather (unit s) (location s) w of
                Inl e \<Rightarrow> Inl e
              | Inr wv \<Rightarrow> Inr \<lparr>field_error = fe, toggle_label = lbl, error_text = et,
                               weather_block = Some wv\<rparr>))"

section \<open>Example responses\<close>

text \<open>
  A current-conditions body and a forecast body with the fields the program reads, for
  the concrete runs below; the forecast has nine entries.
\<close>

definition london_now :: js_value where
  "london_now =
     JObj [(lit ''coord'', JObj [(lit ''lon'', JNum (- 1 / 8)), (lit ''lat'', JNum (103 / 2))]),
           (lit ''weather'',
              JArr [JObj [(lit ''description'', JStr (lit ''light rain'')),
                          (lit ''icon'', JStr (lit ''10d''))]]),
           (lit ''main'', JObj [(lit ''temp'', JNum 12)]),
           (lit ''name'', JStr (lit ''London''))]"

definition forecast_entry :: "rat \<Rightarrow> js_value" where
  "forecast_entry t =
     JObj [(lit ''main'', JObj [(lit ''temp'', JNum t)]),
           (lit ''dt_txt'', JStr (lit ''2024-05-01 12:00:00''))]"

definition london_forecast :: js_value where
  "london_forecast =
     JObj [(lit ''list'', JArr (map forecast_entry [10, 11, 12, 13, 14, 15, 16, 17, 18]))]"

section \<open>Properties of the sampler\<close>

lemma filter_from_nth:
  "filter_from (\<lambda>_ j. j mod 8 = 0) i xs =
     map (nth xs) (filter (\<lambda>k. (i + k) mod 8 = 0) [0..<length xs])"
proof (induction xs arbitrary: i)
  case Nil
  show ?case by simp
next
  case (Cons x xs)
  have up: "[0..<length (x # xs)] = 0 # map Suc [0..<length xs]"
    by (simp add: upt_conv_Cons map_Suc_upt del: upt_Suc)
  show ?case
    unfolding up by (simp add: Cons.IH filter_map comp_def)
qed

lemma div8_exact: "(8 * q + 7) div 8 = q" for q :: nat
  by (rule div_nat_eqI) simp_all

lemma div8_more: "0 < r \<Longrightarrow> r < 8 \<Longrightarrow> (8 * q + r + 7) div 8 = Suc q" for q r :: nat
  by (rule div_nat_eqI) simp_all

lemma eighths_cases:
  fixes n :: nat
  obtains (exact) q where "n = 8 * q" "(n + 7) div 8 = q"
  | (more) q r where "n = 8 * q + r" "0 < r" "r < 8" "(n + 7) div 8 = Suc q"
proof (cases "n mod 8 = 0")
  case True
  then have "8 dvd n" by (simp add: mod_eq_0_iff_dvd)
  then obtain q where q: "n = 8 * q" ..
  show ?thesis by (rule exact [of q]) (simp_all only: q div8_exact)
next
  case False
  have n: "n = 8 * (n div 8) + n mod 8" by simp
  have r: "0 < n mod 8" "n mod 8 < 8" using False by simp_all
  have "(8 * (n div 8) + n mod 8 + 7) div 8 = Suc (n div 8)"
    using r by (rule div8_more)
  then have "(n + 7) div 8 = Suc (n div 8)" by (simp only: n [symmetric])
  with n r show ?thesis by (rule more)
qed

lemma stride_indices:
  "filter (\<lambda>k. k mod 8 = 0) [0..<n] = map (\<lambda>i. i * 8) [0..<(n + 7) div 8]"
proof (induction n)
  case 0
  show ?case by simp
next
  case (Suc n)
  show ?case
  proof (cases n rule: eighths_cases)
    case (exact q)
    have "Suc n + 7 = 8 * Suc q" by (simp add: exact(1))
    then have "(Suc n + 7) div 8 = Suc q" by simp
    moreover have "n mod 8 = 0" "n = q * 8" by (simp_all add: exact(1))
    ultimately show ?thesis using Suc.IH exact(2) by simp
  next
    case (more q r)
    have "(Suc n + 7) div 8 = Suc q"
      unfolding more(1) using more(2,3) by (intro div_nat_eqI) simp_all
    moreover have "n mod 8 \<noteq> 0" using more(2,3) by (simp add: more(1))
    ultimately show ?thesis using Suc.IH more(4) by simp
  qed
qed

lemma stride_in_range: "i < (n + 7) div 8 \<Longrightarrow> i * 8 < n" for n :: nat
proof (cases n rule: eighths_cases)
  case (exact q)
  assume "i < (n + 7) div 8"
  then have "i < q" by (simp only: exact(2))
  then show ?thesis by (simp add: exact(1))
next
  case (more q r)
  assume "i < (n + 7) div 8"
  then have "i < Suc q" by (simp only: more(4))
  then show ?thesis using more(2) by (simp add: more(1))
qed

lemma dailyData_indices:
  "dailyData xs = map (nth xs) (filter (\<lambda>k. k mod 8 = 0) [0..<length xs])"
  by (simp add: dailyData_def js_filter_def filter_from_nth)

lemma dailyData_stride:
  "dailyData xs = map (\<lambda>i. xs ! (i * 8)) [0..<(length xs + 7) div 8]"
  by (simp add: dailyData_indices stride_indices comp_def)

lemma ceiling_eighth: "\<lceil>real n / 8\<rceil> = int ((n + 7) div 8)"
  by linarith

section \<open>Facts about the literals, the steps and the validator\<close>

lemma lit_facts:
  "lit ''metric'' \<noteq> lit ''imperial''"
  "missing_key_msg \<noteq> []"
  "missing_key_msg \<noteq> fetch_failed_msg"
  "fetch_failed_msg \<noteq> []"
  "validation_msg \<noteq> []"
  "lit ''C'' \<noteq> lit ''F''"
  by (simp_all add: lit_def missing_key_msg_def fetch_failed_msg_def validation_msg_def)

lemma API_TOKEN_present: "API_TOKEN \<noteq> None" "API_TOKEN \<noteq> Some []"
  by (simp_all add: API_TOKEN_def lit_def)

lemma run_Nil: "run s [] = s" by (simp add: run_def)
lemma run_Cons: "run s (ev # evs) = run (step s ev) evs" by (simp add: run_def)

lemma onSubmit_token:
  "onSubmit API_TOKEN s c =
     s\<lparr>requests := requests s @ [weather_url API_TOKEN c (unit s)],
       pending := pending s @ [AwaitCurrent c (unit s)]\<rparr>"
  by (simp add: onSubmit_def API_TOKEN_present)

lemma step_Submit_valid:
  "trim v \<noteq> [] \<Longrightarrow>
   step s (Submit v) =
     s\<lparr>errors_cityName := None,
       requests := requests s @ [weather_url API_TOKEN v (unit s)],
       pending := pending s @ [AwaitCurrent v (unit s)]\<rparr>"
  by (simp add: step_def step_with_def validate_cityName_def onSubmit_token)

lemma step_Submit_invalid:
  "trim v = [] \<Longrightarrow> step s (Submit v) = s\<lparr>errors_cityName := Some validation_msg\<rparr>"
  by (simp add: step_def step_with_def validate_cityName_def)

lemma step_Toggle: "step s Toggle = s\<lparr>unit := toggle (unit s)\<rparr>"
  by (simp add: step_def step_with_def)

lemma step_Respond_idle: "\<not> i < length (pending s) \<Longrightarrow> step s (Respond i out) = s"
  by (simp add: step_def step_with_def)

lemma step_current_rejected:
  "i < length (pending s) \<Longrightarrow> pending s ! i = AwaitCurrent c u \<Longrightarrow> axios_get out = Inl e \<Longrightarrow>
   step s (Respond i out) =
     s\<lparr>fetchError := fetch_failed_msg,
       pending := take i (pending s) @ drop (Suc i) (pending s)\<rparr>"
  by (simp add: step_def step_with_def)

lemma step_current_resolved:
  "i < length (pending s) \<Longrightarrow> pending s ! i = AwaitCurrent c u \<Longrightarrow> axios_get out = Inr cur \<Longrightarrow>
   step s (Respond i out) =
     s\<lparr>requests := requests s @ [forecast_url API_TOKEN c u],
       pending := (pending s)[i := AwaitForecast c u cur]\<rparr>"
  by (simp add: step_def step_with_def)

lemma step_forecast_rejected:
  "i < length (pending s) \<Longrightarrow> pending s ! i = AwaitForecast c u cur \<Longrightarrow> axios_get out = Inl e \<Longrightarrow>
   step s (Respond i out) =
     s\<lparr>fetchError := fetch_failed_msg,
       pending := take i (pending s) @ drop (Suc i) (pending s)\<rparr>"
  by (simp add: step_def step_with_def)

lemma step_forecast_resolved:
  "i < length (pending s) \<Longrightarrow> pending s ! i = AwaitForecast c u cur \<Longrightarrow> axios_get out = Inr fd \<Longrightarrow>
   step s (Respond i out) =
     (finish cur fd s)\<lparr>pending := take i (pending s) @ drop (Suc i) (pending s)\<rparr>"
  by (simp add: step_def step_with_def)

lemma finish_ok:
  "sample_forecast fd = Inr daily \<Longrightarrow> get_path cur [lit ''coord'', lit ''lat''] = Inr la \<Longrightarrow>
   get_path cur [lit ''coord'', lit ''lon''] = Inr lo \<Longrightarrow>
   finish cur fd s =
     s\<lparr>weather := Some \<lparr>now = cur, future = daily\<rparr>, location := \<lparr>lat = la, lon = lo\<rparr>,
       fetchError := []\<rparr>"
  by (simp add: finish_def)

lemma finish_frame:
  "unit (finish cur fd s) = unit s" "requests (finish cur fd s) = requests s"
  "pending (finish cur fd s) = pending s" "errors_cityName (finish cur fd s) = errors_cityName s"
  by (simp_all add: finish_def Let_def split: sum.splits)

lemma trim_empty_iff: "trim v = [] \<longleftrightarrow> (\<forall>c \<in> set v. is_white_space c)"
proof -
  have "trim v = [] \<longleftrightarrow> (\<forall>c \<in> set (dropWhile is_white_space v). is_white_space c)"
    by (simp add: trim_def)
  also have "\<dots> \<longleftrightarrow> (\<forall>c \<in> set v. is_white_space c)"
    by (metis dropWhile_eq_Nil_conv hd_dropWhile list.set_sel(1) set_dropWhileD)
  finally show ?thesis .
qed

section \<open>One fetch cycle, and what a step sends\<close>

lemma cycle_current_rejected:
  "trim v \<noteq> [] \<Longrightarrow> axios_get o1 = Inl e \<Longrightarrow>
   run s [Submit v, Respond (length (pending s)) o1] =
     s\<lparr>errors_cityName := None,
       requests := requests s @ [weather_url API_TOKEN v (unit s)],
       fetchError := fetch_failed_msg\<rparr>"
  by (simp add: run_Cons run_Nil step_Submit_valid step_current_rejected [where c = v and u = "unit s"])

lemma cycle_current_resolved:
  "trim v \<noteq> [] \<Longrightarrow> axios_get o1 = Inr cur \<Longrightarrow>
   run s [Submit v, Respond (length (pending s)) o1] =
     s\<lparr>errors_cityName := None,
       requests := requests s @ [weather_url API_TOKEN v (unit s), forecast_url API_TOKEN v (unit s)],
       pending := pending s @ [AwaitForecast v (unit s) cur]\<rparr>"
  by (simp add: run_Cons run_Nil step_Submit_valid step_current_resolved [where c = v and u = "unit s"])

lemma run_snoc: "run s (evs @ [ev]) = step (run s evs) ev"
  by (simp add: run_def)

lemma cycle_forecast_rejected:
  assumes "trim v \<noteq> []" "axios_get o1 = Inr cur" "axios_get o2 = Inl e"
  shows "run s [Submit v, Respond (length (pending s)) o1, Respond (length (pending s)) o2] =
     s\<lparr>errors_cityName := None,
       requests := requests s @ [weather_url API_TOKEN v (unit s), forecast_url API_TOKEN v (unit s)],
       fetchError := fetch_failed_msg\<rparr>"
proof -
  have "run s [Submit v, Respond (length (pending s)) o1, Respond (length (pending s)) o2]
      = step (run s [Submit v, Respond (length (pending s)) o1]) (Respond (length (pending s)) o2)"
    using run_snoc [of s "[Submit v, Respond (length (pending s)) o1]"] by simp
  then show ?thesis
    using assms
    by (simp add: cycle_current_resolved
        step_forecast_rejected [where c = v and u = "unit s" and cur = cur])
qed

lemma cycle_forecast_resolved:
  assumes "trim v \<noteq> []" "axios_get o1 = Inr cur" "axios_get o2 = Inr fd"
  shows "run s [Submit v, Respond (length (pending s)) o1, Respond (length (pending s)) o2] =
     (finish cur fd
        (s\<lparr>errors_cityName := None,
           requests := requests s @ [weather_url API_TOKEN v (unit s), forecast_url API_TOKEN v (unit s)],
           pending := pending s @ [AwaitForecast v (unit s) cur]\<rparr>))\<lparr>pending := pending s\<rparr>"
proof -
  have "run s [Submit v, Respond (length (pending s)) o1, Respond (length (pending s)) o2]
      = step (run s [Submit v, Respond (length (pending s)) o1]) (Respond (length (pending s)) o2)"
    using run_snoc [of s "[Submit v, Respond (length (pending s)) o1]"] by simp
  then show ?thesis
    using assms
    by (simp add: cycle_current_resolved
        step_forecast_resolved [where c = v and u = "unit s" and cur = cur])
qed

lemma respond_rejected:
  assumes "i < length (pending s)" "axios_get out = Inl e"
  shows "step s (Respond i out) =
     s\<lparr>fetchError := fetch_failed_msg,
       pending := take i (pending s) @ drop (Suc i) (pending s)\<rparr>"
proof (cases "pending s ! i")
  case (AwaitCurrent c u)
  with assms show ?thesis by (simp add: step_current_rejected)
next
  case (AwaitForecast c u cur)
  with assms show ?thesis by (simp add: step_forecast_rejected)
qed

lemma step_requests:
  "requests (step s ev) = requests s
   \<or> (\<exists>v. ev = Submit v \<and> trim v \<noteq> []
         \<and> requests (step s ev) = requests s @ [weather_url API_TOKEN v (unit s)])
   \<or> (\<exists>i out c u cur. ev = Respond i out \<and> i < length (pending s)
         \<and> pending s ! i = AwaitCurrent c u \<and> axios_get out = Inr cur
         \<and> requests (step s ev) = requests s @ [forecast_url API_TOKEN c u])"
proof (cases ev)
  case (Submit v)
  then show ?thesis
    by (cases "trim v = []") (simp_all add: step_Submit_valid step_Submit_invalid)
next
  case Toggle
  then show ?thesis by (simp add: step_Toggle)
next
  case (Respond i out)
  show ?thesis
  proof (cases "i < length (pending s)")
    case False
    with Respond show ?thesis by (simp add: step_Respond_idle)
  next
    case True
    show ?thesis
    proof (cases "axios_get out")
      case (Inl e)
      with True Respond show ?thesis by (simp add: respond_rejected)
    next
      case (Inr body)
      show ?thesis
      proof (cases "pending s ! i")
        case (AwaitCurrent c u)
        with True Inr Respond show ?thesis by (simp add: step_current_resolved)
      next
        case (AwaitForecast c u cur)
        with True Inr Respond show ?thesis
          by (simp add: step_forecast_resolved finish_frame)
      qed
    qed
  qed
qed

section \<open>What a step leaves as it is\<close>

lemma trim_London: "trim (lit ''London'') \<noteq> []"
  by (simp add: trim_def lit_def is_white_space_def)

lemma run3:
  "run s [a, b, c] = step (run s [a, b]) c"
  using run_snoc [of s "[a, b]" c] by simp

lemma finish_fetchError:
  "fetchError (finish cur fd s) = [] \<or> fetchError (finish cur fd s) = fetch_failed_msg"
  by (simp add: finish_def Let_def split: sum.splits)

lemma step_fetchError:
  "fetchError (step s ev) = fetchError s \<or> fetchError (step s ev) = []
   \<or> fetchError (step s ev) = fetch_failed_msg"
proof (cases ev)
  case (Submit v)
  then show ?thesis
    by (cases "trim v = []") (simp_all add: step_Submit_valid step_Submit_invalid)
next
  case Toggle
  then show ?thesis by (simp add: step_Toggle)
next
  case (Respond i out)
  show ?thesis
  proof (cases "i < length (pending s)")
    case False
    with Respond show ?thesis by (simp add: step_Respond_idle)
  next
    case True
    show ?thesis
    proof (cases "axios_get out")
      case (Inl e)
      with True Respond show ?thesis by (simp add: respond_rejected)
    next
      case (Inr body)
      show ?thesis
      proof (cases "pending s ! i")
        case (AwaitCurrent c u)
        with True Inr Respond show ?thesis by (simp add: step_current_resolved)
      next
        case (AwaitForecast c u cur)
        with True Inr Respond show ?thesis
          using finish_fetchError [of cur body s] by (auto simp add: step_forecast_resolved)
      qed
    qed
  qed
qed

lemma run_fetchError:
  "fetchError (run s evs) = fetchError s \<or> fetchError (run s evs) = []
   \<or> fetchError (run s evs) = fetch_failed_msg"
proof (induction evs arbitrary: s)
  case Nil
  show ?case by (simp add: run_Nil)
next
  case (Cons ev evs)
  from Cons.IH [of "step s ev"] step_fetchError [of s ev]
  show ?case by (auto simp add: run_Cons)
qed

lemma step_unit:
  "unit (step s ev) = unit s \<or> (ev = Toggle \<and> unit (step s ev) = toggle (unit s))"
proof (cases ev)
  case (Submit v)
  then show ?thesis
    by (cases "trim v = []") (simp_all add: step_Submit_valid step_Submit_invalid)
next
  case Toggle
  then show ?thesis by (simp add: step_Toggle)
next
  case (Respond i out)
  show ?thesis
  proof (cases "i < length (pending s)")
    case False
    with Respond show ?thesis by (simp add: step_Respond_idle)
  next
    case True
    show ?thesis
    proof (cases "axios_get out")
      case (Inl e)
      with True Respond show ?thesis by (simp add: respond_rejected)
    next
      case (Inr body)
      show ?thesis
      proof (cases "pending s ! i")
        case (AwaitCurrent c u)
        with True Inr Respond show ?thesis by (simp add: step_current_resolved)
      next
        case (AwaitForecast c u cur)
        with True Inr Respond show ?thesis
          by (simp add: step_forecast_resolved finish_frame)
      qed
    qed
  qed
qed

lemma toggle_flips:
  "toggle (lit ''metric'') = lit ''imperial''" "toggle (lit ''imperial'') = lit ''metric''"
  by (simp_all add: toggle_def lit_def)

lemma run_unit:
  "unit s = lit ''metric'' \<or> unit s = lit ''imperial'' \<Longrightarrow>
   unit (run s evs) = lit ''metric'' \<or> unit (run s evs) = lit ''imperial''"
proof (induction evs arbitrary: s)
  case Nil
  then show ?case by (simp add: run_Nil)
next
  case (Cons ev evs)
  from Cons.prems step_unit [of s ev]
  have "unit (step s ev) = lit ''metric'' \<or> unit (step s ev) = lit ''imperial''"
    by (auto simp add: toggle_flips)
  then show ?case by (simp add: run_Cons Cons.IH)
qed

section \<open>The request URLs\<close>

lemma url_shapes:
  "weather_url API_TOKEN v u =
     lit ''https://api.openweathermap.org/data/2.5/weather?q='' @ v
       @ lit ''&appid=532e524ebf5657e44968d0cc21a1d155&units='' @ u"
  "forecast_url API_TOKEN v u =
     lit ''https://api.openweathermap.org/data/2.5/forecast?q='' @ v
       @ lit ''&appid=532e524ebf5657e44968d0cc21a1d155&units='' @ u"
  by (simp_all add: weather_url_def forecast_url_def API_TOKEN_def interp_def lit_def)

lemma trim_padded_London: "trim (lit '' London '') = lit ''London''"
  by (simp add: trim_def lit_def is_white_space_def)

lemma trim_padded_London_valid: "trim (lit '' London '') \<noteq> []"
  by (simp add: trim_def lit_def is_white_space_def)

section \<open>A cycle that succeeds\<close>

lemma cycle_finished:
  assumes "trim v \<noteq> []" "axios_get o1 = Inr cur" "axios_get o2 = Inr fd"
    and "sample_forecast fd = Inr daily"
    and "get_path cur [lit ''coord'', lit ''lat''] = Inr la"
    and "get_path cur [lit ''coord'', lit ''lon''] = Inr lo"
  shows "run s [Submit v, Respond (length (pending s)) o1, Respond (length (pending s)) o2] =
     s\<lparr>errors_cityName := None,
       requests := requests s @ [weather_url API_TOKEN v (unit s), forecast_url API_TOKEN v (unit s)],
       weather := Some \<lparr>now = cur, future = daily\<rparr>,
       location := \<lparr>lat = la, lon = lo\<rparr>,
       fetchError := []\<rparr>"
  using assms by (simp add: cycle_forecast_resolved finish_ok)

lemma cycle_with_toggle:
  assumes "trim v \<noteq> []" "axios_get o1 = Inr cur" "axios_get o2 = Inr fd"
    and "sample_forecast fd = Inr daily"
    and "get_path cur [lit ''coord'', lit ''lat''] = Inr la"
    and "get_path cur [lit ''coord'', lit ''lon''] = Inr lo"
  shows "run s [Submit v, Toggle, Respond (length (pending s)) o1, Respond (length (pending s)) o2] =
     s\<lparr>errors_cityName := None,
       requests := requests s @ [weather_url API_TOKEN v (unit s), forecast_url API_TOKEN v (unit s)],
       unit := toggle (unit s),
       weather := Some \<lparr>now = cur, future = daily\<rparr>,
       location := \<lparr>lat = la, lon = lo\<rparr>,
       fetchError := []\<rparr>"
proof -
  let ?k = "length (pending s)"
  let ?s2 = "s\<lparr>errors_cityName := None,
       requests := requests s @ [weather_url API_TOKEN v (unit s)],
       pending := pending s @ [AwaitCurrent v (unit s)],
       unit := toggle (unit s)\<rparr>"
  let ?s3 = "s\<lparr>errors_cityName := None,
       requests := requests s @ [weather_url API_TOKEN v (unit s), forecast_url API_TOKEN v (unit s)],
       pending := pending s @ [AwaitForecast v (unit s) cur],
       unit := toggle (unit s)\<rparr>"
  have 2: "run s [Submit v, Toggle] = ?s2"
    using assms(1) by (simp add: run_Cons run_Nil step_Submit_valid step_Toggle)
  have 3: "step ?s2 (Respond ?k o1) = ?s3"
    using assms(2) by (simp add: step_current_resolved [where c = v and u = "unit s"])
  have 4: "step ?s3 (Respond ?k o2) =
     s\<lparr>errors_cityName := None,
       requests := requests s @ [weather_url API_TOKEN v (unit s), forecast_url API_TOKEN v (unit s)],
       unit := toggle (unit s),
       weather := Some \<lparr>now = cur, future = daily\<rparr>,
       location := \<lparr>lat = la, lon = lo\<rparr>,
       fetchError := []\<rparr>"
    using assms(3-6)
    by (simp add: step_forecast_resolved [where c = v and u = "unit s" and cur = cur] finish_ok)
  have "run s [Submit v, Toggle, Respond ?k o1, Respond ?k o2]
      = step (step (run s [Submit v, Toggle]) (Respond ?k o1)) (Respond ?k o2)"
    by (simp add: run_def)
  then show ?thesis by (simp only: 2 3 4)
qed

section \<open>The example responses, evaluated\<close>

lemma london_sample:
  "sample_forecast london_forecast = Inr [forecast_entry 10, forecast_entry 18]"
  by (simp add: sample_forecast_def london_forecast_def dailyData_def js_filter_def)

lemma london_coord:
  "get_path london_now [lit ''coord'', lit ''lat''] = Inr (JNum (103 / 2))"
  "get_path london_now [lit ''coord'', lit ''lon''] = Inr (JNum (- 1 / 8))"
  by (simp_all add: london_now_def lit_def)

lemma london_render:
  "render_weather u loc \<lparr>now = london_now, future = [forecast_entry 10, forecast_entry 18]\<rparr>
     = Inr \<lparr>icon = JStr (lit ''10d''), description = JStr (lit ''light rain''),
            name = JStr (lit ''London''), temp = JNum 12, suffix = unit_suffix u,
            chart = [(JStr (lit ''2024-05-01 12:00:00''), JNum 10),
                     (JStr (lit ''2024-05-01 12:00:00''), JNum 18)],
            center = loc\<rparr>"
  by (simp add: render_weather_def london_now_def forecast_entry_def lit_def)

section \<open>The weather block and the unit\<close>

lemma render_weather_unit:
  "render_weather u loc w = Inr wv \<Longrightarrow>
   suffix wv = unit_suffix u \<and> render_weather u' loc w = Inr (wv\<lparr>suffix := unit_suffix u'\<rparr>)"
  by (auto simp add: render_weather_def split: sum.splits)

lemma render_weather_block:
  "render s = Inr vw \<Longrightarrow> weather_block vw = Some wv \<Longrightarrow>
   \<exists>w. weather s = Some w \<and> render_weather (unit s) (location s) w = Inr wv"
  by (auto simp add: render_def Let_def split: option.splits sum.splits)

lemma render_shown:
  "weather s = Some w \<Longrightarrow> render_weather (unit s) (location s) w = Inr wv \<Longrightarrow>
   \<exists>vw. render s = Inr vw \<and> weather_block vw = Some wv"
  by (simp add: render_def Let_def)

lemma suffix_letters:
  "unit_suffix (lit ''metric'') = lit ''C''" "unit_suffix (lit ''imperial'') = lit ''F''"
  by (simp_all add: unit_suffix_def lit_def)

lemma london_run_toggled:
  "run initial_state [Submit (lit ''London''), Toggle, Respond 0 (HttpResponse 200 london_now),
                      Respond 0 (HttpResponse 200 london_forecast)]
   = initial_state\<lparr>
       requests := [weather_url API_TOKEN (lit ''London'') (lit ''metric''),
                    forecast_url API_TOKEN (lit ''London'') (lit ''metric'')],
       unit := lit ''imperial'',
       weather := Some \<lparr>now = london_now, future = [forecast_entry 10, forecast_entry 18]\<rparr>,
       location := \<lparr>lat = JNum (103 / 2), lon = JNum (- 1 / 8)\<rparr>\<rparr>"
proof -
  have r: "axios_get (HttpResponse 200 london_now) = Inr london_now"
    "axios_get (HttpResponse 200 london_forecast) = Inr london_forecast"
    by simp_all
  show ?thesis
    using cycle_with_toggle [OF trim_London r london_sample london_coord, of initial_state]
    by (simp add: initial_state_def toggle_flips)
qed

lemma london_run:
  "run initial_state [Submit (lit ''London''), Respond 0 (HttpResponse 200 london_now),
                      Respond 0 (HttpResponse 200 london_forecast)]
   = initial_state\<lparr>
       requests := [weather_url API_TOKEN (lit ''London'') (lit ''metric''),
                    forecast_url API_TOKEN (lit ''London'') (lit ''metric'')],
       weather := Some \<lparr>now = london_now, future = [forecast_entry 10, forecast_entry 18]\<rparr>,
       location := \<lparr>lat = JNum (103 / 2), lon = JNum (- 1 / 8)\<rparr>\<rparr>"
proof -
  have r: "axios_get (HttpResponse 200 london_now) = Inr london_now"
    "axios_get (HttpResponse 200 london_forecast) = Inr london_forecast"
    by simp_all
  show ?thesis
    using cycle_finished [OF trim_London r london_sample london_coord, of initial_state]
    by (simp add: initial_state_def)
qed

lemma london_view:
  "weather s = Some \<lparr>now = london_now, future = [forecast_entry 10, forecast_entry 18]\<rparr> \<Longrightarrow>
   errors_cityName s = None \<Longrightarrow> fetchError s = [] \<Longrightarrow>
   render s = Inr \<lparr>field_error = None,
       toggle_label = lit ''Change to ''
          @ (if unit s = lit ''metric'' then lit ''Fahrenheit'' else lit ''Celsius''),
       error_text = None,
       weather_block = Some
         \<lparr>icon = JStr (lit ''10d''), description = JStr (lit ''light rain''),
          name = JStr (lit ''London''), temp = JNum 12, suffix = unit_suffix (unit s),
          chart = [(JStr (lit ''2024-05-01 12:00:00''), JNum 10),
                   (JStr (lit ''2024-05-01 12:00:00''), JNum 18)],
          center = location s\<rparr>\<rparr>"
  by (simp add: render_def Let_def london_render)

section \<open>The claims\<close>

text \<open>
  C1, as stated, fails: the suffix shown is not that of the unit of the submission when
  the unit is toggled before the display. \<^verbatim>\<open>London\<close> is submitted under metric, the unit is
  toggled, and both requests, sent with \<^verbatim>\<open>units=metric\<close>, succeed: the page then shows the
  metric temperature 12 with the suffix \<^verbatim>\<open>F\<close>, where the suffix of metric is \<^verbatim>\<open>C\<close>.
\<close>

theorem suffix_after_toggle_counterexample:
  "requests (run initial_state
      [Submit (lit ''London''), Toggle, Respond 0 (HttpResponse 200 london_now),
       Respond 0 (HttpResponse 200 london_forecast)])
     = [weather_url API_TOKEN (lit ''London'') (lit ''metric''),
        forecast_url API_TOKEN (lit ''London'') (lit ''metric'')]
   \<and> render (run initial_state
      [Submit (lit ''London''), Toggle, Respond 0 (HttpResponse 200 london_now),
       Respond 0 (HttpResponse 200 london_forecast)])
     = Inr \<lparr>field_error = None, toggle_label = lit ''Change to Celsius'', error_text = None,
            weather_block = Some
              \<lparr>icon = JStr (lit ''10d''), description = JStr (lit ''light rain''),
               name = JStr (lit ''London''), temp = JNum 12, suffix = lit ''F'',
               chart = [(JStr (lit ''2024-05-01 12:00:00''), JNum 10),
                        (JStr (lit ''2024-05-01 12:00:00''), JNum 18)],
               center = \<lparr>lat = JNum (103 / 2), lon = JNum (- 1 / 8)\<rparr>\<rparr>\<rparr>
   \<and> unit_suffix (lit ''metric'') = lit ''C''
   \<and> lit ''F'' \<noteq> lit ''C''"
proof -
  let ?s = "run initial_state
      [Submit (lit ''London''), Toggle, Respond 0 (HttpResponse 200 london_now),
       Respond 0 (HttpResponse 200 london_forecast)]"
  have f: "weather ?s = Some \<lparr>now = london_now, future = [forecast_entry 10, forecast_entry 18]\<rparr>"
    "errors_cityName ?s = None" "fetchError ?s = []" "unit ?s = lit ''imperial''"
    "location ?s = \<lparr>lat = JNum (103 / 2), lon = JNum (- 1 / 8)\<rparr>"
    "requests ?s = [weather_url API_TOKEN (lit ''London'') (lit ''metric''),
        forecast_url API_TOKEN (lit ''London'') (lit ''metric'')]"
    by (simp_all add: london_run_toggled) (simp_all add: initial_state_def)
  have l: "lit ''Change to '' @ lit ''Celsius'' = lit ''Change to Celsius''"
    by (simp add: lit_def)
  have n: "lit ''imperial'' \<noteq> lit ''metric''" "lit ''F'' \<noteq> lit ''C''"
    by (simp_all add: lit_def)
  show ?thesis
    using london_view [OF f(1-3)] by (simp add: f(4-6) n l suffix_letters)
qed

text \<open>
  C1, amended. The suffix shown next to the temperature is that of the unit in effect at
  the time of display (\<^verbatim>\<open>C\<close> for metric, \<^verbatim>\<open>F\<close> for imperial). A successful two-call fetch
  submitted under the unit \<open>u\<close> sends both requests with \<open>u\<close> and does not change the
  unit, so without a toggle the suffix shown after it is that of \<open>u\<close>; a toggle, between
  submission and display or after, changes the suffix to that of the other unit and
  leaves the requests and the temperature shown as they are.
\<close>

theorem suffix_follows_current_unit:
  "(render s = Inr vw \<and> weather_block vw = Some wv \<longrightarrow>
      suffix wv = unit_suffix (unit s)
      \<and> (\<exists>vw' wv'. render (step s Toggle) = Inr vw' \<and> weather_block vw' = Some wv'
            \<and> suffix wv' = unit_suffix (toggle (unit s))
            \<and> temp wv' = temp wv \<and> name wv' = name wv))
   \<and> unit_suffix (lit ''metric'') = lit ''C''
   \<and> unit_suffix (lit ''imperial'') = lit ''F''
   \<and> (trim v \<noteq> [] \<and> axios_get o1 = Inr cur \<and> axios_get o2 = Inr fd
       \<and> sample_forecast fd = Inr daily
       \<and> get_path cur [lit ''coord'', lit ''lat''] = Inr la
       \<and> get_path cur [lit ''coord'', lit ''lon''] = Inr lo \<longrightarrow>
      requests (run s [Submit v, Respond (length (pending s)) o1, Respond (length (pending s)) o2])
        = requests s @ [weather_url API_TOKEN v (unit s), forecast_url API_TOKEN v (unit s)]
      \<and> unit (run s [Submit v, Respond (length (pending s)) o1, Respond (length (pending s)) o2])
        = unit s
      \<and> (render (run s [Submit v, Respond (length (pending s)) o1, Respond (length (pending s)) o2])
            = Inr vw \<and> weather_block vw = Some wv \<longrightarrow>
          suffix wv = unit_suffix (unit s))
      \<and> requests (run s [Submit v, Toggle, Respond (length (pending s)) o1,
                          Respond (length (pending s)) o2])
        = requests s @ [weather_url API_TOKEN v (unit s), forecast_url API_TOKEN v (unit s)]
      \<and> (render (run s [Submit v, Toggle, Respond (length (pending s)) o1,
                         Respond (length (pending s)) o2])
            = Inr vw \<and> weather_block vw = Some wv \<longrightarrow>
          suffix wv = unit_suffix (toggle (unit s))))"
proof -
  have shown: "suffix wv = unit_suffix (unit t)"
    if "render t = Inr vw \<and> weather_block vw = Some wv" for t vw wv
  proof -
    from that obtain w where "render_weather (unit t) (location t) w = Inr wv"
      using render_weather_block [of t vw wv] by blast
    then show ?thesis using render_weather_unit [of "unit t" "location t" w wv] by simp
  qed
  have toggled: "\<exists>vw' wv'. render (step s Toggle) = Inr vw' \<and> weather_block vw' = Some wv'
            \<and> suffix wv' = unit_suffix (toggle (unit s))
            \<and> temp wv' = temp wv \<and> name wv' = name wv"
    if "render s = Inr vw \<and> weather_block vw = Some wv"
  proof -
    from that obtain w where w: "weather s = Some w"
      "render_weather (unit s) (location s) w = Inr wv"
      using render_weather_block [of s vw wv] by blast
    let ?wv = "wv\<lparr>suffix := unit_suffix (toggle (unit s))\<rparr>"
    from w(2) have "render_weather (toggle (unit s)) (location s) w = Inr ?wv"
      using render_weather_unit [of "unit s" "location s" w wv "toggle (unit s)"] by simp
    with w(1) obtain vw' where "render (step s Toggle) = Inr vw'" "weather_block vw' = Some ?wv"
      using render_shown [of "step s Toggle" w ?wv] by (auto simp add: step_Toggle)
    then show ?thesis by (intro exI [of _ vw'] exI [of _ ?wv]) simp
  qed
  have cycle: "requests (run s [Submit v, Respond (length (pending s)) o1, Respond (length (pending s)) o2])
        = requests s @ [weather_url API_TOKEN v (unit s), forecast_url API_TOKEN v (unit s)]
      \<and> unit (run s [Submit v, Respond (length (pending s)) o1, Respond (length (pending s)) o2])
        = unit s
      \<and> requests (run s [Submit v, Toggle, Respond (length (pending s)) o1,
                          Respond (length (pending s)) o2])
        = requests s @ [weather_url API_TOKEN v (unit s), forecast_url API_TOKEN v (unit s)]
      \<and> unit (run s [Submit v, Toggle, Respond (length (pending s)) o1,
                          Respond (length (pending s)) o2])
        = toggle (unit s)"
    if "trim v \<noteq> [] \<and> axios_get o1 = Inr cur \<and> axios_get o2 = Inr fd
       \<and> sample_forecast fd = Inr daily
       \<and> get_path cur [lit ''coord'', lit ''lat''] = Inr la
       \<and> get_path cur [lit ''coord'', lit ''lon''] = Inr lo"
    using that
    by (simp add: cycle_finished [where cur = cur and fd = fd and daily = daily and la = la and lo = lo]
        cycle_with_toggle [where cur = cur and fd = fd and daily = daily and la = la and lo = lo])
  show ?thesis
  proof (intro conjI impI)
    assume a: "render s = Inr vw \<and> weather_block vw = Some wv"
    from a show "suffix wv = unit_suffix (unit s)" by (rule shown)
    from a show "\<exists>vw' wv'. render (step s Toggle) = Inr vw' \<and> weather_block vw' = Some wv'
            \<and> suffix wv' = unit_suffix (toggle (unit s))
            \<and> temp wv' = temp wv \<and> name wv' = name wv"
      by (rule toggled)
  next
    show "unit_suffix (lit ''metric'') = lit ''C''" by (rule suffix_letters)
    show "unit_suffix (lit ''imperial'') = lit ''F''" by (rule suffix_letters)
  next
    assume h: "trim v \<noteq> [] \<and> axios_get o1 = Inr cur \<and> axios_get o2 = Inr fd
       \<and> sample_forecast fd = Inr daily
       \<and> get_path cur [lit ''coord'', lit ''lat''] = Inr la
       \<and> get_path cur [lit ''coord'', lit ''lon''] = Inr lo"
    from cycle [OF h]
    show "requests (run s [Submit v, Respond (length (pending s)) o1, Respond (length (pending s)) o2])
        = requests s @ [weather_url API_TOKEN v (unit s), forecast_url API_TOKEN v (unit s)]"
      and "unit (run s [Submit v, Respond (length (pending s)) o1, Respond (length (pending s)) o2])
        = unit s"
      and "requests (run s [Submit v, Toggle, Respond (length (pending s)) o1,
                          Respond (length (pending s)) o2])
        = requests s @ [weather_url API_TOKEN v (unit s), forecast_url API_TOKEN v (unit s)]"
      by blast+
  next
    assume h: "trim v \<noteq> [] \<and> axios_get o1 = Inr cur \<and> axios_get o2 = Inr fd
       \<and> sample_forecast fd = Inr daily
       \<and> get_path cur [lit ''coord'', lit ''lat''] = Inr la
       \<and> get_path cur [lit ''coord'', lit ''lon''] = Inr lo"
    assume r: "render (run s [Submit v, Respond (length (pending s)) o1, Respond (length (pending s)) o2])
            = Inr vw \<and> weather_block vw = Some wv"
    from shown [OF r] cycle [OF h] show "suffix wv = unit_suffix (unit s)" by simp
  next
    assume h: "trim v \<noteq> [] \<and> axios_get o1 = Inr cur \<and> axios_get o2 = Inr fd
       \<and> sample_forecast fd = Inr daily
       \<and> get_path cur [lit ''coord'', lit ''lat''] = Inr la
       \<and> get_path cur [lit ''coord'', lit ''lon''] = Inr lo"
    assume r: "render (run s [Submit v, Toggle, Respond (length (pending s)) o1,
                         Respond (length (pending s)) o2])
            = Inr vw \<and> weather_block vw = Some wv"
    from shown [OF r] cycle [OF h] show "suffix wv = unit_suffix (toggle (unit s))" by simp
  qed
qed

theorem suffix_follows_current_unit_witness:
  "trim (lit ''London'') \<noteq> []
   \<and> axios_get (HttpResponse 200 london_now) = Inr london_now
   \<and> axios_get (HttpResponse 200 london_forecast) = Inr london_forecast
   \<and> sample_forecast london_forecast = Inr [forecast_entry 10, forecast_entry 18]
   \<and> get_path london_now [lit ''coord'', lit ''lat''] = Inr (JNum (103 / 2))
   \<and> get_path london_now [lit ''coord'', lit ''lon''] = Inr (JNum (- 1 / 8))
   \<and> render (run initial_state
        [Submit (lit ''London''), Respond 0 (HttpResponse 200 london_now),
         Respond 0 (HttpResponse 200 london_forecast)])
       = Inr \<lparr>field_error = None, toggle_label = lit ''Change to Fahrenheit'', error_text = None,
              weather_block = Some
                \<lparr>icon = JStr (lit ''10d''), description = JStr (lit ''light rain''),
                 name = JStr (lit ''London''), temp = JNum 12, suffix = lit ''C'',
                 chart = [(JStr (lit ''2024-05-01 12:00:00''), JNum 10),
                          (JStr (lit ''2024-05-01 12:00:00''), JNum 18)],
                 center = \<lparr>lat = JNum (103 / 2), lon = JNum (- 1 / 8)\<rparr>\<rparr>\<rparr>
   \<and> requests (run initial_state
        [Submit (lit ''London''), Respond 0 (HttpResponse 200 london_now),
         Respond 0 (HttpResponse 200 london_forecast)])
       = [weather_url API_TOKEN (lit ''London'') (lit ''metric''),
          forecast_url API_TOKEN (lit ''London'') (lit ''metric'')]
   \<and> unit (run initial_state
        [Submit (lit ''London''), Respond 0 (HttpResponse 200 london_now),
         Respond 0 (HttpResponse 200 london_forecast)]) = lit ''metric''"
proof -
  let ?s = "run initial_state
        [Submit (lit ''London''), Respond 0 (HttpResponse 200 london_now),
         Respond 0 (HttpResponse 200 london_forecast)]"
  let ?wv = "\<lparr>icon = JStr (lit ''10d''), description = JStr (lit ''light rain''),
                 name = JStr (lit ''London''), temp = JNum 12, suffix = unit_suffix (unit ?s),
                 chart = [(JStr (lit ''2024-05-01 12:00:00''), JNum 10),
                          (JStr (lit ''2024-05-01 12:00:00''), JNum 18)],
                 center = location ?s\<rparr>"
  let ?vw = "\<lparr>field_error = None,
       toggle_label = lit ''Change to ''
          @ (if unit ?s = lit ''metric'' then lit ''Fahrenheit'' else lit ''Celsius''),
       error_text = None, weather_block = Some ?wv\<rparr>"
  have r: "axios_get (HttpResponse 200 london_now) = Inr london_now"
    "axios_get (HttpResponse 200 london_forecast) = Inr london_forecast"
    by simp_all
  have i: "length (pending initial_state) = 0" "requests initial_state = []"
    "unit initial_state = lit ''metric''"
    by (simp_all add: initial_state_def)
  have f: "weather ?s = Some \<lparr>now = london_now, future = [forecast_entry 10, forecast_entry 18]\<rparr>"
    "errors_cityName ?s = None" "fetchError ?s = []"
    "location ?s = \<lparr>lat = JNum (103 / 2), lon = JNum (- 1 / 8)\<rparr>"
    by (simp_all add: london_run) (simp_all add: initial_state_def)
  have v: "render ?s = Inr ?vw" by (rule london_view [OF f(1-3)])
  have b: "weather_block ?vw = Some ?wv" by simp
  from suffix_follows_current_unit [where s = initial_state and v = "lit ''London''"
      and ?o1.0 = "HttpResponse 200 london_now" and ?o2.0 = "HttpResponse 200 london_forecast"
      and cur = london_now and fd = london_forecast
      and daily = "[forecast_entry 10, forecast_entry 18]"
      and la = "JNum (103 / 2)" and lo = "JNum (- 1 / 8)" and vw = ?vw and wv = ?wv]
    trim_London r london_sample london_coord
  have q: "requests ?s = [weather_url API_TOKEN (lit ''London'') (lit ''metric''),
          forecast_url API_TOKEN (lit ''London'') (lit ''metric'')]"
    and u: "unit ?s = lit ''metric''"
    and c: "unit_suffix (lit ''metric'') = lit ''C''"
    by (simp_all add: i)
  have l: "lit ''Change to '' @ lit ''Fahrenheit'' = lit ''Change to Fahrenheit''"
    by (simp add: lit_def)
  from v have "render ?s = Inr \<lparr>field_error = None, toggle_label = lit ''Change to Fahrenheit'',
              error_text = None,
              weather_block = Some
                \<lparr>icon = JStr (lit ''10d''), description = JStr (lit ''light rain''),
                 name = JStr (lit ''London''), temp = JNum 12, suffix = lit ''C'',
                 chart = [(JStr (lit ''2024-05-01 12:00:00''), JNum 10),
                          (JStr (lit ''2024-05-01 12:00:00''), JNum 18)],
                 center = \<lparr>lat = JNum (103 / 2), lon = JNum (- 1 / 8)\<rparr>\<rparr>\<rparr>"
    by (simp add: u c l f(4))
  with trim_London r london_sample london_coord q u show ?thesis by blast
qed

text \<open>
  C2. For a forecast list of length \<open>N\<close> the sampler returns exactly the entries whose
  index is a multiple of 8, in their order: the result has \<open>\<lceil>N / 8\<rceil>\<close> entries, and for
  every \<open>i\<close> below that its \<open>i\<close>-th entry is the entry of the list at index \<open>i * 8\<close>,
  which is an index of the list. The handler applies it to the \<^verbatim>\<open>list\<close> of the forecast
  response.
\<close>

theorem forecast_sampler_stride:
  "dailyData xs = map (nth xs) (filter (\<lambda>k. k mod 8 = 0) [0..<length xs])
   \<and> int (length (dailyData xs)) = \<lceil>real (length xs) / 8\<rceil>
   \<and> (\<forall>i. int i < \<lceil>real (length xs) / 8\<rceil> \<longrightarrow>
         i * 8 < length xs \<and> dailyData xs ! i = xs ! (i * 8))
   \<and> (get_prop data (lit ''list'') = Inr (JArr ys) \<longrightarrow> sample_forecast data = Inr (dailyData ys))"
proof (intro conjI allI impI)
  show "dailyData xs = map (nth xs) (filter (\<lambda>k. k mod 8 = 0) [0..<length xs])"
    by (rule dailyData_indices)
  show "int (length (dailyData xs)) = \<lceil>real (length xs) / 8\<rceil>"
    by (simp add: dailyData_stride ceiling_eighth)
next
  fix i assume "int i < \<lceil>real (length xs) / 8\<rceil>"
  then have i: "i < (length xs + 7) div 8" by (simp add: ceiling_eighth)
  then show "i * 8 < length xs" by (rule stride_in_range)
  from i show "dailyData xs ! i = xs ! (i * 8)" by (simp add: dailyData_stride)
next
  assume "get_prop data (lit ''list'') = Inr (JArr ys)"
  then show "sample_forecast data = Inr (dailyData ys)" by (simp add: sample_forecast_def)
qed

theorem forecast_sampler_stride_witness:
  "int 2 < \<lceil>real (length [10, 11, 12, 13, 14, 15, 16, 17, 18, 19, 20, 21, 22, 23, 24, 25, 26 :: nat]) / 8\<rceil>
   \<and> dailyData [10, 11, 12, 13, 14, 15, 16, 17, 18, 19, 20, 21, 22, 23, 24, 25, 26 :: nat] = [10, 18, 26]
   \<and> dailyData [10, 11, 12, 13, 14, 15, 16, 17, 18, 19, 20, 21, 22, 23, 24, 25, 26 :: nat] ! 2 = 26
   \<and> get_prop london_forecast (lit ''list'')
       = Inr (JArr (map forecast_entry [10, 11, 12, 13, 14, 15, 16, 17, 18]))
   \<and> sample_forecast london_forecast = Inr [forecast_entry 10, forecast_entry 18]"
proof -
  let ?xs = "[10, 11, 12, 13, 14, 15, 16, 17, 18, 19, 20, 21, 22, 23, 24, 25, 26 :: nat]"
  let ?ys = "map forecast_entry [10, 11, 12, 13, 14, 15, 16, 17, 18]"
  have h: "int 2 < \<lceil>real (length ?xs) / 8\<rceil>" by simp
  have v: "dailyData ?xs = [10, 18, 26]" by (simp add: dailyData_def js_filter_def)
  have g: "get_prop london_forecast (lit ''list'') = Inr (JArr ?ys)"
    by (simp add: london_forecast_def)
  have d: "dailyData ?ys = [forecast_entry 10, forecast_entry 18]"
    by (simp add: dailyData_def js_filter_def)
  from forecast_sampler_stride [of ?xs london_forecast ?ys] h g
  have "dailyData ?xs ! 2 = ?xs ! (2 * 8)"
    and s: "sample_forecast london_forecast = Inr (dailyData ?ys)"
    by blast+
  then have "dailyData ?xs ! 2 = 26" by simp
  with h v g s d show ?thesis by simp
qed

text \<open>
  C3. A submitted city name whose trimmed form is empty, which is one made of white space
  only, sends no request and yields exactly the message \<^verbatim>\<open>Please enter a city name.\<close> as
  the field's error, everything else in the state staying as it was; a city name whose
  trimmed form is not empty passes validation, and the handler runs and sends the
  current-conditions request.
\<close>

theorem empty_city_rejected:
  "(trim v = [] \<longleftrightarrow> (\<forall>c \<in> set v. is_white_space c))
   \<and> (trim v = [] \<longrightarrow>
        validate_cityName v = Some (lit ''Please enter a city name.'')
        \<and> step s (Submit v) = s\<lparr>errors_cityName := Some (lit ''Please enter a city name.'')\<rparr>
        \<and> requests (step s (Submit v)) = requests s
        \<and> pending (step s (Submit v)) = pending s)
   \<and> (trim v \<noteq> [] \<longrightarrow>
        validate_cityName v = None
        \<and> errors_cityName (step s (Submit v)) = None
        \<and> requests (step s (Submit v)) = requests s @ [weather_url API_TOKEN v (unit s)])"
  by (simp add: trim_empty_iff [symmetric] step_Submit_valid step_Submit_invalid
      validate_cityName_def validation_msg_def)

theorem empty_city_rejected_witness:
  "trim (lit ''   '') = []
   \<and> requests (step initial_state (Submit (lit ''   ''))) = []
   \<and> errors_cityName (step initial_state (Submit (lit ''   '')))
       = Some (lit ''Please enter a city name.'')
   \<and> trim (lit ''London'') \<noteq> []
   \<and> errors_cityName (step initial_state (Submit (lit ''London''))) = None"
proof -
  have a: "trim (lit ''   '') = []" by (simp add: trim_def lit_def is_white_space_def)
  have b: "trim (lit ''London'') \<noteq> []" by (simp add: trim_def lit_def is_white_space_def)
  from empty_city_rejected [of "lit ''   ''" initial_state] a
  have "step initial_state (Submit (lit ''   ''))
          = initial_state\<lparr>errors_cityName := Some (lit ''Please enter a city name.'')\<rparr>"
    by blast
  then have c: "requests (step initial_state (Submit (lit ''   ''))) = []"
    and d: "errors_cityName (step initial_state (Submit (lit ''   '')))
              = Some (lit ''Please enter a city name.'')"
    by (simp_all add: initial_state_def)
  from empty_city_rejected [of "lit ''London''" initial_state] b
  have e: "errors_cityName (step initial_state (Submit (lit ''London''))) = None" by blast
  from a b c d e show ?thesis by blast
qed

text \<open>
  C4. The two requests of a submission are strictly sequential. A step sends at most one
  request, and it sends a forecast request only when it delivers a successful
  current-conditions response to the call waiting for it. When the current-conditions
  request fails, the call ends (it leaves the calls in flight) without sending anything,
  so its forecast request is never sent; when it succeeds, the forecast request follows
  the current-conditions request, for the same city and unit.
\<close>

theorem requests_strictly_sequential:
  "(requests (step s ev) = requests s
    \<or> (\<exists>v. ev = Submit v \<and> trim v \<noteq> []
          \<and> requests (step s ev) = requests s @ [weather_url API_TOKEN v (unit s)])
    \<or> (\<exists>i out c u cur. ev = Respond i out \<and> i < length (pending s)
          \<and> pending s ! i = AwaitCurrent c u \<and> axios_get out = Inr cur
          \<and> requests (step s ev) = requests s @ [forecast_url API_TOKEN c u]))
   \<and> (i < length (pending s) \<and> pending s ! i = AwaitCurrent c u \<and> axios_get out = Inl e \<longrightarrow>
          requests (step s (Respond i out)) = requests s
          \<and> pending (step s (Respond i out)) = take i (pending s) @ drop (Suc i) (pending s))
   \<and> (trim v \<noteq> [] \<and> axios_get o1 = Inl e \<longrightarrow>
          requests (run s [Submit v, Respond (length (pending s)) o1, Respond (length (pending s)) o2])
            = requests s @ [weather_url API_TOKEN v (unit s)]
          \<and> pending (run s [Submit v, Respond (length (pending s)) o1, Respond (length (pending s)) o2])
            = pending s)
   \<and> (trim v \<noteq> [] \<and> axios_get o1 = Inr cur \<longrightarrow>
          requests (step s (Submit v)) = requests s @ [weather_url API_TOKEN v (unit s)]
          \<and> requests (run s [Submit v, Respond (length (pending s)) o1])
            = requests s @ [weather_url API_TOKEN v (unit s), forecast_url API_TOKEN v (unit s)])"
proof (intro conjI impI)
  show "requests (step s ev) = requests s
    \<or> (\<exists>v. ev = Submit v \<and> trim v \<noteq> []
          \<and> requests (step s ev) = requests s @ [weather_url API_TOKEN v (unit s)])
    \<or> (\<exists>i out c u cur. ev = Respond i out \<and> i < length (pending s)
          \<and> pending s ! i = AwaitCurrent c u \<and> axios_get out = Inr cur
          \<and> requests (step s ev) = requests s @ [forecast_url API_TOKEN c u])"
    by (rule step_requests)
next
  assume a: "i < length (pending s) \<and> pending s ! i = AwaitCurrent c u \<and> axios_get out = Inl e"
  then show "requests (step s (Respond i out)) = requests s"
    by (simp add: respond_rejected)
  from a show "pending (step s (Respond i out)) = take i (pending s) @ drop (Suc i) (pending s)"
    by (simp add: respond_rejected)
next
  assume a: "trim v \<noteq> [] \<and> axios_get o1 = Inl e"
  have split: "run s [Submit v, Respond (length (pending s)) o1, Respond (length (pending s)) o2]
      = step (run s [Submit v, Respond (length (pending s)) o1]) (Respond (length (pending s)) o2)"
    using run_snoc [of s "[Submit v, Respond (length (pending s)) o1]"] by simp
  from a have mid: "run s [Submit v, Respond (length (pending s)) o1] =
     s\<lparr>errors_cityName := None,
       requests := requests s @ [weather_url API_TOKEN v (unit s)],
       fetchError := fetch_failed_msg\<rparr>"
    by (simp add: cycle_current_rejected)
  show "requests (run s [Submit v, Respond (length (pending s)) o1, Respond (length (pending s)) o2])
            = requests s @ [weather_url API_TOKEN v (unit s)]"
    by (simp add: split mid step_Respond_idle)
  show "pending (run s [Submit v, Respond (length (pending s)) o1, Respond (length (pending s)) o2])
            = pending s"
    by (simp add: split mid step_Respond_idle)
next
  assume a: "trim v \<noteq> [] \<and> axios_get o1 = Inr cur"
  then show "requests (step s (Submit v)) = requests s @ [weather_url API_TOKEN v (unit s)]"
    by (simp add: step_Submit_valid)
  from a show "requests (run s [Submit v, Respond (length (pending s)) o1])
            = requests s @ [weather_url API_TOKEN v (unit s), forecast_url API_TOKEN v (unit s)]"
    by (simp add: cycle_current_resolved)
qed

theorem requests_strictly_sequential_witness:
  "trim (lit ''London'') \<noteq> [] \<and> axios_get (HttpResponse 404 JNull) = Inl AxiosError
   \<and> requests (run initial_state [Submit (lit ''London''), Respond 0 (HttpResponse 404 JNull),
                                   Respond 0 (HttpResponse 200 london_forecast)])
       = [weather_url API_TOKEN (lit ''London'') (lit ''metric'')]
   \<and> axios_get (HttpResponse 200 london_now) = Inr london_now
   \<and> requests (run initial_state [Submit (lit ''London''), Respond 0 (HttpResponse 200 london_now)])
       = [weather_url API_TOKEN (lit ''London'') (lit ''metric''),
          forecast_url API_TOKEN (lit ''London'') (lit ''metric'')]
   \<and> pending (run initial_state [Submit (lit ''London'')])
       = [AwaitCurrent (lit ''London'') (lit ''metric'')]
   \<and> requests (step (run initial_state [Submit (lit ''London'')]) (Respond 0 (HttpResponse 404 JNull)))
       = [weather_url API_TOKEN (lit ''London'') (lit ''metric'')]
   \<and> pending (step (run initial_state [Submit (lit ''London'')]) (Respond 0 (HttpResponse 404 JNull)))
       = []"
proof -
  let ?s1 = "run initial_state [Submit (lit ''London'')]"
  have t: "trim (lit ''London'') \<noteq> []" by (rule trim_London)
  have f: "axios_get (HttpResponse 404 JNull) = Inl AxiosError" by simp
  have g: "axios_get (HttpResponse 200 london_now) = Inr london_now" by simp
  have p: "length (pending initial_state) = 0" "requests initial_state = []"
    "unit initial_state = lit ''metric''" "pending initial_state = []"
    by (simp_all add: initial_state_def)
  have p1: "pending ?s1 = [AwaitCurrent (lit ''London'') (lit ''metric'')]"
    and r1: "requests ?s1 = [weather_url API_TOKEN (lit ''London'') (lit ''metric'')]"
    by (simp_all add: run_Cons run_Nil step_Submit_valid [OF trim_London] p)
  from requests_strictly_sequential
    [where s = initial_state and v = "lit ''London''" and e = AxiosError
       and ?o1.0 = "HttpResponse 404 JNull" and ?o2.0 = "HttpResponse 200 london_forecast"]
    t f
  have a: "requests (run initial_state [Submit (lit ''London''), Respond 0 (HttpResponse 404 JNull),
                                   Respond 0 (HttpResponse 200 london_forecast)])
       = [weather_url API_TOKEN (lit ''London'') (lit ''metric'')]"
    by (simp add: p)
  from requests_strictly_sequential
    [where s = initial_state and v = "lit ''London''" and cur = london_now
       and ?o1.0 = "HttpResponse 200 london_now"]
    t g
  have b: "requests (run initial_state [Submit (lit ''London''), Respond 0 (HttpResponse 200 london_now)])
       = [weather_url API_TOKEN (lit ''London'') (lit ''metric''),
          forecast_url API_TOKEN (lit ''London'') (lit ''metric'')]"
    by (simp add: p)
  from requests_strictly_sequential
    [where s = ?s1 and i = 0 and c = "lit ''London''" and u = "lit ''metric''"
       and out = "HttpResponse 404 JNull" and e = AxiosError]
    p1 f
  have c: "requests (step ?s1 (Respond 0 (HttpResponse 404 JNull))) = requests ?s1"
    and d: "pending (step ?s1 (Respond 0 (HttpResponse 404 JNull))) = []"
    by simp_all
  from t f a g b p1 c d show ?thesis by (simp only: r1 simp_thms)
qed

text \<open>
  C5. When either request of a submission fails (the network fails, or the status is not
  2xx, as for an unknown city), the fetch error becomes exactly the fixed failure message
  and the weather and the location keep the values they had before the submission. The
  same holds for every single step that delivers a failed response to a call in flight.
\<close>

theorem failed_fetch_keeps_snapshot:
  "(i < length (pending s) \<and> axios_get out = Inl e \<longrightarrow>
      fetchError (step s (Respond i out))
        = lit ''Oops! Couldn't retrieve data. Please double-check the city name or try again later.''
      \<and> weather (step s (Respond i out)) = weather s
      \<and> location (step s (Respond i out)) = location s)
   \<and> (trim v \<noteq> [] \<and> (axios_get o1 = Inl e \<or> (axios_get o1 = Inr cur \<and> axios_get o2 = Inl e)) \<longrightarrow>
      fetchError (run s [Submit v, Respond (length (pending s)) o1, Respond (length (pending s)) o2])
        = lit ''Oops! Couldn't retrieve data. Please double-check the city name or try again later.''
      \<and> weather (run s [Submit v, Respond (length (pending s)) o1, Respond (length (pending s)) o2])
        = weather s
      \<and> location (run s [Submit v, Respond (length (pending s)) o1, Respond (length (pending s)) o2])
        = location s)
   \<and> axios_get NetworkError = Inl AxiosError
   \<and> (\<not> (200 \<le> status \<and> status < 300) \<longrightarrow> axios_get (HttpResponse status body) = Inl AxiosError)"
proof (intro conjI impI)
  assume "i < length (pending s) \<and> axios_get out = Inl e"
  then have "step s (Respond i out) =
     s\<lparr>fetchError := fetch_failed_msg,
       pending := take i (pending s) @ drop (Suc i) (pending s)\<rparr>"
    by (simp add: respond_rejected)
  then show "fetchError (step s (Respond i out))
        = lit ''Oops! Couldn't retrieve data. Please double-check the city name or try again later.''"
    and "weather (step s (Respond i out)) = weather s"
    and "location (step s (Respond i out)) = location s"
    by (simp_all add: fetch_failed_msg_def)
next
  let ?r = "run s [Submit v, Respond (length (pending s)) o1, Respond (length (pending s)) o2]"
  assume a: "trim v \<noteq> [] \<and> (axios_get o1 = Inl e \<or> (axios_get o1 = Inr cur \<and> axios_get o2 = Inl e))"
  have "?r = s\<lparr>errors_cityName := None,
                requests := requests s @ [weather_url API_TOKEN v (unit s)],
                fetchError := fetch_failed_msg\<rparr>
        \<or> ?r = s\<lparr>errors_cityName := None,
                requests := requests s @ [weather_url API_TOKEN v (unit s),
                                           forecast_url API_TOKEN v (unit s)],
                fetchError := fetch_failed_msg\<rparr>"
  proof (cases "axios_get o1")
    case (Inl e')
    with a have "run s [Submit v, Respond (length (pending s)) o1] =
       s\<lparr>errors_cityName := None,
         requests := requests s @ [weather_url API_TOKEN v (unit s)],
         fetchError := fetch_failed_msg\<rparr>"
      by (simp add: cycle_current_rejected)
    then show ?thesis by (simp add: run3 step_Respond_idle)
  next
    case (Inr cur')
    with a show ?thesis by (simp add: cycle_forecast_rejected)
  qed
  then show "fetchError ?r
        = lit ''Oops! Couldn't retrieve data. Please double-check the city name or try again later.''"
    and "weather ?r = weather s" and "location ?r = location s"
    by (auto simp add: fetch_failed_msg_def)
qed simp_all

theorem failed_fetch_keeps_snapshot_witness:
  "trim (lit ''Qwxyzzz'') \<noteq> []
   \<and> axios_get (HttpResponse 404 JNull) = Inl AxiosError
   \<and> axios_get (HttpResponse 200 london_now) = Inr london_now
   \<and> axios_get NetworkError = Inl AxiosError
   \<and> weather (run initial_state
        [Submit (lit ''London''), Respond 0 (HttpResponse 200 london_now),
         Respond 0 (HttpResponse 200 london_forecast)])
       = Some \<lparr>now = london_now, future = [forecast_entry 10, forecast_entry 18]\<rparr>
   \<and> fetchError (run (run initial_state
        [Submit (lit ''London''), Respond 0 (HttpResponse 200 london_now),
         Respond 0 (HttpResponse 200 london_forecast)])
        [Submit (lit ''Qwxyzzz''), Respond 0 (HttpResponse 404 JNull), Respond 0 NetworkError])
       = lit ''Oops! Couldn't retrieve data. Please double-check the city name or try again later.''
   \<and> weather (run (run initial_state
        [Submit (lit ''London''), Respond 0 (HttpResponse 200 london_now),
         Respond 0 (HttpResponse 200 london_forecast)])
        [Submit (lit ''Qwxyzzz''), Respond 0 (HttpResponse 404 JNull), Respond 0 NetworkError])
       = Some \<lparr>now = london_now, future = [forecast_entry 10, forecast_entry 18]\<rparr>
   \<and> fetchError (run (run initial_state
        [Submit (lit ''London''), Respond 0 (HttpResponse 200 london_now),
         Respond 0 (HttpResponse 200 london_forecast)])
        [Submit (lit ''Qwxyzzz''), Respond 0 (HttpResponse 200 london_now), Respond 0 NetworkError])
       = lit ''Oops! Couldn't retrieve data. Please double-check the city name or try again later.''
   \<and> weather (run (run initial_state
        [Submit (lit ''London''), Respond 0 (HttpResponse 200 london_now),
         Respond 0 (HttpResponse 200 london_forecast)])
        [Submit (lit ''Qwxyzzz''), Respond 0 (HttpResponse 200 london_now), Respond 0 NetworkError])
       = Some \<lparr>now = london_now, future = [forecast_entry 10, forecast_entry 18]\<rparr>
   \<and> weather (step (step (run initial_state
        [Submit (lit ''London''), Respond 0 (HttpResponse 200 london_now),
         Respond 0 (HttpResponse 200 london_forecast)]) (Submit (lit ''Qwxyzzz'')))
        (Respond 0 NetworkError))
       = Some \<lparr>now = london_now, future = [forecast_entry 10, forecast_entry 18]\<rparr>"
proof -
  let ?s = "run initial_state
        [Submit (lit ''London''), Respond 0 (HttpResponse 200 london_now),
         Respond 0 (HttpResponse 200 london_forecast)]"
  let ?s1 = "step ?s (Submit (lit ''Qwxyzzz''))"
  have t: "trim (lit ''Qwxyzzz'') \<noteq> []" by (simp add: trim_def lit_def is_white_space_def)
  have f: "axios_get (HttpResponse 404 JNull) = Inl AxiosError"
    and g: "axios_get (HttpResponse 200 london_now) = Inr london_now"
    and n: "axios_get NetworkError = Inl AxiosError"
    by simp_all
  have p: "length (pending ?s) = 0"
    and w: "weather ?s = Some \<lparr>now = london_now, future = [forecast_entry 10, forecast_entry 18]\<rparr>"
    by (simp_all add: london_run) (simp add: initial_state_def)
  have p1: "0 < length (pending ?s1)" and w1: "weather ?s1 = weather ?s"
    by (simp_all add: step_Submit_valid [OF t])
  from failed_fetch_keeps_snapshot
    [where s = ?s and v = "lit ''Qwxyzzz''" and e = AxiosError
       and ?o1.0 = "HttpResponse 404 JNull" and ?o2.0 = NetworkError] t f
  have a: "fetchError (run ?s [Submit (lit ''Qwxyzzz''), Respond 0 (HttpResponse 404 JNull),
                               Respond 0 NetworkError])
       = lit ''Oops! Couldn't retrieve data. Please double-check the city name or try again later.''"
    and b: "weather (run ?s [Submit (lit ''Qwxyzzz''), Respond 0 (HttpResponse 404 JNull),
                               Respond 0 NetworkError]) = weather ?s"
    by (simp_all add: p)
  from failed_fetch_keeps_snapshot
    [where s = ?s and v = "lit ''Qwxyzzz''" and e = AxiosError and cur = london_now
       and ?o1.0 = "HttpResponse 200 london_now" and ?o2.0 = NetworkError] t g n
  have c: "fetchError (run ?s [Submit (lit ''Qwxyzzz''), Respond 0 (HttpResponse 200 london_now),
                               Respond 0 NetworkError])
       = lit ''Oops! Couldn't retrieve data. Please double-check the city name or try again later.''"
    and d: "weather (run ?s [Submit (lit ''Qwxyzzz''), Respond 0 (HttpResponse 200 london_now),
                               Respond 0 NetworkError]) = weather ?s"
    by (simp_all add: p)
  from failed_fetch_keeps_snapshot
    [where s = ?s1 and i = 0 and out = NetworkError and e = AxiosError] p1 n
  have e: "weather (step ?s1 (Respond 0 NetworkError)) = weather ?s1"
    by simp
  from t f g n w a b c d e show ?thesis by (simp only: w w1 simp_thms)
qed

text \<open>
  C6. A submission made while the credential is absent (\<^verbatim>\<open>undefined\<close> or the empty string)
  fails at once with exactly the message
  \<^verbatim>\<open>API key is missing. Please check your .env configuration.\<close>: the handler changes
  the fetch error only, so no request is sent, no call is left in flight, and the weather
  and the location are as before.
\<close>

theorem missing_credential_fails_at_once:
  "tok = None \<or> tok = Some [] \<Longrightarrow>
   onSubmit tok s cityName
     = s\<lparr>fetchError := lit ''API key is missing. Please check your .env configuration.''\<rparr>
   \<and> requests (onSubmit tok s cityName) = requests s
   \<and> pending (onSubmit tok s cityName) = pending s
   \<and> weather (onSubmit tok s cityName) = weather s
   \<and> location (onSubmit tok s cityName) = location s
   \<and> (trim v \<noteq> [] \<longrightarrow>
        step_with tok s (Submit v)
          = s\<lparr>errors_cityName := None,
              fetchError := lit ''API key is missing. Please check your .env configuration.''\<rparr>)"
  by (auto simp add: onSubmit_def missing_key_msg_def step_with_def validate_cityName_def)

theorem missing_credential_fails_at_once_witness:
  "((None :: js_string option) = None \<or> (None :: js_string option) = Some [])
   \<and> trim (lit ''London'') \<noteq> []
   \<and> fetchError (step_with None initial_state (Submit (lit ''London'')))
       = lit ''API key is missing. Please check your .env configuration.''
   \<and> requests (step_with None initial_state (Submit (lit ''London''))) = []
   \<and> pending (step_with None initial_state (Submit (lit ''London''))) = []
   \<and> weather (step_with None initial_state (Submit (lit ''London''))) = None"
proof -
  have h: "(None :: js_string option) = None \<or> (None :: js_string option) = Some []" by simp
  from missing_credential_fails_at_once [OF h, of initial_state "lit ''London''" "lit ''London''"]
    trim_London
  have "step_with None initial_state (Submit (lit ''London''))
          = initial_state\<lparr>errors_cityName := None,
              fetchError := lit ''API key is missing. Please check your .env configuration.''\<rparr>"
    by blast
  then show ?thesis using trim_London by (simp add: initial_state_def)
qed

text \<open>
  C7, as stated, fails in two ways. After a failed fetch has set the error, a submission
  of \<^verbatim>\<open>London\<close> that goes on to succeed leaves the error text in place while its requests
  are in flight, and clears it only when the second response has arrived. And a
  validation failure does not set the fetch error: it sets the field's error.
\<close>

theorem error_during_fetch_counterexample:
  "fetchError (run initial_state
      [Submit (lit ''Qwxyzzz''), Respond 0 (HttpResponse 404 JNull), Submit (lit ''London'')])
     = lit ''Oops! Couldn't retrieve data. Please double-check the city name or try again later.''
   \<and> pending (run initial_state
      [Submit (lit ''Qwxyzzz''), Respond 0 (HttpResponse 404 JNull), Submit (lit ''London'')])
     = [AwaitCurrent (lit ''London'') (lit ''metric'')]
   \<and> fetchError (run initial_state
      [Submit (lit ''Qwxyzzz''), Respond 0 (HttpResponse 404 JNull), Submit (lit ''London''),
       Respond 0 (HttpResponse 200 london_now)])
     = lit ''Oops! Couldn't retrieve data. Please double-check the city name or try again later.''
   \<and> fetchError (run initial_state
      [Submit (lit ''Qwxyzzz''), Respond 0 (HttpResponse 404 JNull), Submit (lit ''London''),
       Respond 0 (HttpResponse 200 london_now), Respond 0 (HttpResponse 200 london_forecast)])
     = []
   \<and> fetchError (step initial_state (Submit (lit ''   ''))) = []
   \<and> errors_cityName (step initial_state (Submit (lit ''   '')))
     = Some (lit ''Please enter a city name.'')"
proof -
  let ?failed = "run initial_state [Submit (lit ''Qwxyzzz''), Respond 0 (HttpResponse 404 JNull)]"
  have q: "trim (lit ''Qwxyzzz'') \<noteq> []" by (simp add: trim_def lit_def is_white_space_def)
  have b: "trim (lit ''   '') = []" by (simp add: trim_def lit_def is_white_space_def)
  have i: "length (pending initial_state) = 0" by (simp add: initial_state_def)
  have r: "axios_get (HttpResponse 404 JNull) = Inl AxiosError"
    "axios_get (HttpResponse 200 london_now) = Inr london_now"
    "axios_get (HttpResponse 200 london_forecast) = Inr london_forecast"
    by simp_all
  have 1: "?failed = initial_state\<lparr>errors_cityName := None,
       requests := requests initial_state @ [weather_url API_TOKEN (lit ''Qwxyzzz'') (unit initial_state)],
       fetchError := fetch_failed_msg\<rparr>"
    using cycle_current_rejected [OF q r(1), of initial_state] by (simp add: i)
  have k: "length (pending ?failed) = 0" "fetchError ?failed = fetch_failed_msg"
    "unit ?failed = lit ''metric''"
    by (simp_all add: 1) (simp_all add: initial_state_def)
  have app: "run initial_state (evs @ evs') = run (run initial_state evs) evs'" for evs evs'
    by (simp add: run_def)
  have 2: "run initial_state
      [Submit (lit ''Qwxyzzz''), Respond 0 (HttpResponse 404 JNull), Submit (lit ''London'')]
      = step ?failed (Submit (lit ''London''))"
    using app [of "[Submit (lit ''Qwxyzzz''), Respond 0 (HttpResponse 404 JNull)]"
        "[Submit (lit ''London'')]"]
    by (simp add: run_Cons run_Nil)
  have 3: "run initial_state
      [Submit (lit ''Qwxyzzz''), Respond 0 (HttpResponse 404 JNull), Submit (lit ''London''),
       Respond 0 (HttpResponse 200 london_now)]
      = run ?failed [Submit (lit ''London''), Respond (length (pending ?failed)) (HttpResponse 200 london_now)]"
    using app [of "[Submit (lit ''Qwxyzzz''), Respond 0 (HttpResponse 404 JNull)]"
        "[Submit (lit ''London''), Respond 0 (HttpResponse 200 london_now)]"]
    by (simp add: k(1))
  have 4: "run initial_state
      [Submit (lit ''Qwxyzzz''), Respond 0 (HttpResponse 404 JNull), Submit (lit ''London''),
       Respond 0 (HttpResponse 200 london_now), Respond 0 (HttpResponse 200 london_forecast)]
      = run ?failed [Submit (lit ''London''), Respond (length (pending ?failed)) (HttpResponse 200 london_now),
           Respond (length (pending ?failed)) (HttpResponse 200 london_forecast)]"
    using app [of "[Submit (lit ''Qwxyzzz''), Respond 0 (HttpResponse 404 JNull)]"
        "[Submit (lit ''London''), Respond 0 (HttpResponse 200 london_now),
          Respond 0 (HttpResponse 200 london_forecast)]"]
    by (simp add: k(1))
  have c1: "fetchError (step ?failed (Submit (lit ''London''))) = fetch_failed_msg"
    and c2: "pending (step ?failed (Submit (lit ''London'')))
               = [AwaitCurrent (lit ''London'') (lit ''metric'')]"
    using k by (simp_all add: step_Submit_valid [OF trim_London])
  have c3: "fetchError (run ?failed [Submit (lit ''London''),
               Respond (length (pending ?failed)) (HttpResponse 200 london_now)]) = fetch_failed_msg"
    using k(2) by (simp add: cycle_current_resolved [OF trim_London r(2)])
  have c4: "fetchError (run ?failed [Submit (lit ''London''),
               Respond (length (pending ?failed)) (HttpResponse 200 london_now),
               Respond (length (pending ?failed)) (HttpResponse 200 london_forecast)]) = []"
    by (simp add: cycle_finished [OF trim_London r(2) r(3) london_sample london_coord])
  have c5: "fetchError (step initial_state (Submit (lit ''   ''))) = []"
    and c6: "errors_cityName (step initial_state (Submit (lit ''   '')))
     = Some (lit ''Please enter a city name.'')"
    by (simp_all add: step_Submit_invalid [OF b] validation_msg_def) (simp add: initial_state_def)
  from c1 c2 c3 c4 c5 c6 show ?thesis
    by (simp only: 2 3 4 fetch_failed_msg_def) 
qed

text \<open>
  C7, amended. The fetch error is set when a request fails; a validation failure leaves
  it as it is and sets the field's error instead. It is cleared when a fetch completes
  with success, after the second response: neither the start of a fetch nor the arrival
  of the first response touches it, so the earlier error text stays while the fetch is in
  progress.
\<close>

theorem fetch_error_lifecycle:
  "fetchError (step s (Submit v)) = fetchError s
   \<and> (trim v = [] \<longrightarrow>
        errors_cityName (step s (Submit v)) = Some (lit ''Please enter a city name.''))
   \<and> (i < length (pending s) \<and> axios_get out = Inl e \<longrightarrow>
        fetchError (step s (Respond i out))
          = lit ''Oops! Couldn't retrieve data. Please double-check the city name or try again later.'')
   \<and> (i < length (pending s) \<and> pending s ! i = AwaitCurrent c u \<and> axios_get out = Inr cur \<longrightarrow>
        fetchError (step s (Respond i out)) = fetchError s)
   \<and> (i < length (pending s) \<and> pending s ! i = AwaitForecast c u cur \<and> axios_get out = Inr fd
        \<and> sample_forecast fd = Inr daily
        \<and> get_path cur [lit ''coord'', lit ''lat''] = Inr la
        \<and> get_path cur [lit ''coord'', lit ''lon''] = Inr lo \<longrightarrow>
        fetchError (step s (Respond i out)) = []
        \<and> weather (step s (Respond i out)) = Some \<lparr>now = cur, future = daily\<rparr>
        \<and> location (step s (Respond i out)) = \<lparr>lat = la, lon = lo\<rparr>)"
proof (intro conjI impI)
  show "fetchError (step s (Submit v)) = fetchError s"
    by (cases "trim v = []") (simp_all add: step_Submit_valid step_Submit_invalid)
next
  assume "trim v = []"
  then show "errors_cityName (step s (Submit v)) = Some (lit ''Please enter a city name.'')"
    by (simp add: step_Submit_invalid validation_msg_def)
next
  assume "i < length (pending s) \<and> axios_get out = Inl e"
  then show "fetchError (step s (Respond i out))
          = lit ''Oops! Couldn't retrieve data. Please double-check the city name or try again later.''"
    by (simp add: respond_rejected fetch_failed_msg_def)
next
  assume "i < length (pending s) \<and> pending s ! i = AwaitCurrent c u \<and> axios_get out = Inr cur"
  then show "fetchError (step s (Respond i out)) = fetchError s"
    by (simp add: step_current_resolved)
next
  assume a: "i < length (pending s) \<and> pending s ! i = AwaitForecast c u cur \<and> axios_get out = Inr fd
        \<and> sample_forecast fd = Inr daily
        \<and> get_path cur [lit ''coord'', lit ''lat''] = Inr la
        \<and> get_path cur [lit ''coord'', lit ''lon''] = Inr lo"
  then have "step s (Respond i out) =
     (s\<lparr>weather := Some \<lparr>now = cur, future = daily\<rparr>, location := \<lparr>lat = la, lon = lo\<rparr>,
        fetchError := []\<rparr>)\<lparr>pending := take i (pending s) @ drop (Suc i) (pending s)\<rparr>"
    by (simp add: step_forecast_resolved finish_ok)
  then show "fetchError (step s (Respond i out)) = []"
    and "weather (step s (Respond i out)) = Some \<lparr>now = cur, future = daily\<rparr>"
    and "location (step s (Respond i out)) = \<lparr>lat = la, lon = lo\<rparr>"
    by simp_all
qed

theorem fetch_error_lifecycle_witness:
  "trim (lit ''   '') = []
   \<and> errors_cityName (step initial_state (Submit (lit ''   '')))
       = Some (lit ''Please enter a city name.'')
   \<and> fetchError (step initial_state (Submit (lit ''   ''))) = []
   \<and> pending (run initial_state [Submit (lit ''London'')])
       = [AwaitCurrent (lit ''London'') (lit ''metric'')]
   \<and> fetchError (step (run initial_state [Submit (lit ''London'')]) (Respond 0 NetworkError))
       = lit ''Oops! Couldn't retrieve data. Please double-check the city name or try again later.''
   \<and> fetchError (step (run initial_state [Submit (lit ''London'')])
                       (Respond 0 (HttpResponse 200 london_now))) = []
   \<and> pending (run initial_state [Submit (lit ''London''), Respond 0 (HttpResponse 200 london_now)])
       = [AwaitForecast (lit ''London'') (lit ''metric'') london_now]
   \<and> fetchError (step (run initial_state [Submit (lit ''London''),
                                            Respond 0 (HttpResponse 200 london_now)])
                       (Respond 0 (HttpResponse 200 london_forecast))) = []
   \<and> weather (step (run initial_state [Submit (lit ''London''),
                                         Respond 0 (HttpResponse 200 london_now)])
                    (Respond 0 (HttpResponse 200 london_forecast)))
       = Some \<lparr>now = london_now, future = [forecast_entry 10, forecast_entry 18]\<rparr>"
proof -
  let ?s1 = "run initial_state [Submit (lit ''London'')]"
  let ?s2 = "run initial_state [Submit (lit ''London''), Respond 0 (HttpResponse 200 london_now)]"
  have b: "trim (lit ''   '') = []" by (simp add: trim_def lit_def is_white_space_def)
  have r: "axios_get NetworkError = Inl AxiosError"
    "axios_get (HttpResponse 200 london_now) = Inr london_now"
    "axios_get (HttpResponse 200 london_forecast) = Inr london_forecast"
    by simp_all
  have i: "length (pending initial_state) = 0" "pending initial_state = []"
    "unit initial_state = lit ''metric''" "fetchError initial_state = []"
    by (simp_all add: initial_state_def)
  have p1: "pending ?s1 = [AwaitCurrent (lit ''London'') (lit ''metric'')]"
    and e1: "fetchError ?s1 = []"
    by (simp_all add: run_Cons run_Nil step_Submit_valid [OF trim_London] i)
  have p2: "pending ?s2 = [AwaitForecast (lit ''London'') (lit ''metric'') london_now]"
    using cycle_current_resolved [OF trim_London r(2), of initial_state] by (simp add: i)
  from fetch_error_lifecycle [where s = initial_state and v = "lit ''   ''"] b
  have 1: "errors_cityName (step initial_state (Submit (lit ''   '')))
       = Some (lit ''Please enter a city name.'')"
    and 2: "fetchError (step initial_state (Submit (lit ''   ''))) = fetchError initial_state"
    by blast+
  from fetch_error_lifecycle [where s = ?s1 and i = 0 and out = NetworkError and e = AxiosError]
    p1 r(1)
  have 3: "fetchError (step ?s1 (Respond 0 NetworkError))
       = lit ''Oops! Couldn't retrieve data. Please double-check the city name or try again later.''"
    by simp
  from fetch_error_lifecycle [where s = ?s1 and i = 0 and out = "HttpResponse 200 london_now"
      and c = "lit ''London''" and u = "lit ''metric''" and cur = london_now] p1 r(2)
  have 4: "fetchError (step ?s1 (Respond 0 (HttpResponse 200 london_now))) = fetchError ?s1"
    by simp
  from fetch_error_lifecycle [where s = ?s2 and i = 0 and out = "HttpResponse 200 london_forecast"
      and c = "lit ''London''" and u = "lit ''metric''" and cur = london_now
      and fd = london_forecast and daily = "[forecast_entry 10, forecast_entry 18]"
      and la = "JNum (103 / 2)" and lo = "JNum (- 1 / 8)"]
    p2 r(3) london_sample london_coord
  have 5: "fetchError (step ?s2 (Respond 0 (HttpResponse 200 london_forecast))) = []"
    and 6: "weather (step ?s2 (Respond 0 (HttpResponse 200 london_forecast)))
       = Some \<lparr>now = london_now, future = [forecast_entry 10, forecast_entry 18]\<rparr>"
    by simp_all
  from b 1 2 p1 3 4 p2 5 6 show ?thesis by (simp only: i e1 simp_thms)
qed

text \<open>
  C8. The toggle changes the unit only, from metric to imperial and from imperial to
  metric, which are the only two values the unit ever has: the weather, the location and
  the fetch error stay as they are, and no request is sent and no call is started or
  resumed. The next submission sends its request with the new unit.
\<close>

theorem toggle_changes_unit_only:
  "step s Toggle = s\<lparr>unit := toggle (unit s)\<rparr>
   \<and> weather (step s Toggle) = weather s
   \<and> location (step s Toggle) = location s
   \<and> fetchError (step s Toggle) = fetchError s
   \<and> requests (step s Toggle) = requests s
   \<and> pending (step s Toggle) = pending s
   \<and> toggle (lit ''metric'') = lit ''imperial''
   \<and> toggle (lit ''imperial'') = lit ''metric''
   \<and> (unit (run initial_state evs) = lit ''metric'' \<or> unit (run initial_state evs) = lit ''imperial'')
   \<and> (trim v \<noteq> [] \<longrightarrow>
        requests (step (step s Toggle) (Submit v))
          = requests s @ [weather_url API_TOKEN v (toggle (unit s))])"
proof -
  have "unit initial_state = lit ''metric'' \<or> unit initial_state = lit ''imperial''"
    by (simp add: initial_state_def)
  then have "unit (run initial_state evs) = lit ''metric'' \<or> unit (run initial_state evs) = lit ''imperial''"
    by (rule run_unit)
  then show ?thesis
    by (simp add: step_Toggle toggle_flips step_Submit_valid)
qed

theorem toggle_changes_unit_only_witness:
  "trim (lit ''London'') \<noteq> []
   \<and> unit (step initial_state Toggle) = lit ''imperial''
   \<and> requests (step initial_state Toggle) = []
   \<and> requests (step (step initial_state Toggle) (Submit (lit ''London'')))
       = [weather_url API_TOKEN (lit ''London'') (lit ''imperial'')]"
proof -
  have u: "unit initial_state = lit ''metric''" "requests initial_state = []"
    by (simp_all add: initial_state_def)
  from toggle_changes_unit_only [of initial_state "[]" "lit ''London''"] trim_London
  have "step initial_state Toggle = initial_state\<lparr>unit := toggle (unit initial_state)\<rparr>"
    and "toggle (lit ''metric'') = lit ''imperial''"
    and "requests (step initial_state Toggle) = requests initial_state"
    and "requests (step (step initial_state Toggle) (Submit (lit ''London'')))
          = requests initial_state @ [weather_url API_TOKEN (lit ''London'') (toggle (unit initial_state))]"
    by blast+
  then show ?thesis using trim_London by (simp add: u)
qed

text \<open>
  C9, as stated, fails: the city name of both requests is not the trimmed form of the
  submitted text. Submitting \<^verbatim>\<open>" London "\<close> sends both requests with \<^verbatim>\<open>q= London \<close>, the
  blanks included, although the trimmed form is \<^verbatim>\<open>London\<close>.
\<close>

theorem city_not_trimmed_counterexample:
  "trim (lit '' London '') = lit ''London''
   \<and> requests (run initial_state
        [Submit (lit '' London ''), Respond 0 (HttpResponse 200 london_now)])
       = [lit ''https://api.openweathermap.org/data/2.5/weather?q= London &appid=532e524ebf5657e44968d0cc21a1d155&units=metric'',
          lit ''https://api.openweathermap.org/data/2.5/forecast?q= London &appid=532e524ebf5657e44968d0cc21a1d155&units=metric'']
   \<and> requests (run initial_state
        [Submit (lit '' London ''), Respond 0 (HttpResponse 200 london_now)])
       \<noteq> [weather_url API_TOKEN (trim (lit '' London '')) (lit ''metric''),
           forecast_url API_TOKEN (trim (lit '' London '')) (lit ''metric'')]"
proof -
  have a: "axios_get (HttpResponse 200 london_now) = Inr london_now" by simp
  have p: "length (pending initial_state) = 0" "requests initial_state = []"
    "unit initial_state = lit ''metric''"
    by (simp_all add: initial_state_def)
  have r: "requests (run initial_state
        [Submit (lit '' London ''), Respond 0 (HttpResponse 200 london_now)])
       = [weather_url API_TOKEN (lit '' London '') (lit ''metric''),
          forecast_url API_TOKEN (lit '' London '') (lit ''metric'')]"
    using cycle_current_resolved [OF trim_padded_London_valid a, of initial_state]
    by (simp add: p)
  have w: "weather_url API_TOKEN (lit '' London '') (lit ''metric'')
      = lit ''https://api.openweathermap.org/data/2.5/weather?q= London &appid=532e524ebf5657e44968d0cc21a1d155&units=metric''"
    by (simp add: url_shapes) (simp add: lit_def)
  have f: "forecast_url API_TOKEN (lit '' London '') (lit ''metric'')
      = lit ''https://api.openweathermap.org/data/2.5/forecast?q= London &appid=532e524ebf5657e44968d0cc21a1d155&units=metric''"
    by (simp add: url_shapes) (simp add: lit_def)
  have n: "weather_url API_TOKEN (lit '' London '') (lit ''metric'')
      \<noteq> weather_url API_TOKEN (trim (lit '' London '')) (lit ''metric'')"
    by (simp add: url_shapes trim_padded_London) (simp add: lit_def)
  from r w f n show ?thesis by (simp add: trim_padded_London)
qed

text \<open>
  C9, amended. For every submission that passes validation, the city name in the \<^verbatim>\<open>q\<close>
  parameter of both requests is the submitted text as it was typed: the trimming is part
  of the validation only. It is the trimmed form exactly when the submitted text has no
  white space at its ends.
\<close>

theorem city_sent_as_typed:
  "(trim v \<noteq> [] \<and> axios_get o1 = Inr cur \<longrightarrow>
      requests (run s [Submit v, Respond (length (pending s)) o1])
        = requests s @ [weather_url API_TOKEN v (unit s), forecast_url API_TOKEN v (unit s)])
   \<and> weather_url API_TOKEN v u
       = lit ''https://api.openweathermap.org/data/2.5/weather?q='' @ v
           @ lit ''&appid=532e524ebf5657e44968d0cc21a1d155&units='' @ u
   \<and> forecast_url API_TOKEN v u
       = lit ''https://api.openweathermap.org/data/2.5/forecast?q='' @ v
           @ lit ''&appid=532e524ebf5657e44968d0cc21a1d155&units='' @ u
   \<and> (weather_url API_TOKEN v u = weather_url API_TOKEN (trim v) u \<longleftrightarrow> v = trim v)
   \<and> (forecast_url API_TOKEN v u = forecast_url API_TOKEN (trim v) u \<longleftrightarrow> v = trim v)"
proof (intro conjI impI)
  assume "trim v \<noteq> [] \<and> axios_get o1 = Inr cur"
  then show "requests (run s [Submit v, Respond (length (pending s)) o1])
        = requests s @ [weather_url API_TOKEN v (unit s), forecast_url API_TOKEN v (unit s)]"
    by (simp add: cycle_current_resolved)
qed (simp_all add: url_shapes)

theorem city_sent_as_typed_witness:
  "trim (lit '' London '') \<noteq> [] \<and> axios_get (HttpResponse 200 london_now) = Inr london_now
   \<and> requests (run initial_state
        [Submit (lit '' London ''), Respond 0 (HttpResponse 200 london_now)])
       = [weather_url API_TOKEN (lit '' London '') (lit ''metric''),
          forecast_url API_TOKEN (lit '' London '') (lit ''metric'')]"
proof -
  have a: "axios_get (HttpResponse 200 london_now) = Inr london_now" by simp
  have p: "length (pending initial_state) = 0" "requests initial_state = []"
    "unit initial_state = lit ''metric''"
    by (simp_all add: initial_state_def)
  from city_sent_as_typed [of "lit '' London ''" "HttpResponse 200 london_now" london_now
      initial_state "lit ''metric''"] trim_padded_London_valid a
  have "requests (run initial_state
        [Submit (lit '' London ''), Respond 0 (HttpResponse 200 london_now)])
       = [weather_url API_TOKEN (lit '' London '') (lit ''metric''),
          forecast_url API_TOKEN (lit '' London '') (lit ''metric'')]"
    by (simp add: p)
  with trim_padded_London_valid a show ?thesis by blast
qed

text \<open>
  C10. The credential of line 96 is a literal that is not empty, so the guard of lines
  116-119 never fires: for every state and city name the handler leaves the fetch error
  as it is, sends the current-conditions request and suspends at its first
  \<^verbatim>\<open>await\<close>; and whatever happens to the page from its initial state, the fetch error is
  never the missing-credential message.
\<close>

theorem credential_guard_unreachable:
  "API_TOKEN \<noteq> None \<and> API_TOKEN \<noteq> Some []
   \<and> onSubmit API_TOKEN s cityName
       = s\<lparr>requests := requests s @ [weather_url API_TOKEN cityName (unit s)],
           pending := pending s @ [AwaitCurrent cityName (unit s)]\<rparr>
   \<and> fetchError (onSubmit API_TOKEN s cityName) = fetchError s
   \<and> fetchError (run initial_state evs)
       \<noteq> lit ''API key is missing. Please check your .env configuration.''"
proof -
  have "fetchError (run initial_state evs) = [] \<or> fetchError (run initial_state evs) = fetch_failed_msg"
    using run_fetchError [of initial_state evs] by (simp add: initial_state_def)
  then have "fetchError (run initial_state evs) \<noteq> missing_key_msg"
    using lit_facts(2,3) by auto
  then show ?thesis
    by (simp add: API_TOKEN_present onSubmit_token missing_key_msg_def)
qed

theorem credential_guard_unreachable_witness:
  "fetchError (run initial_state [Submit (lit ''London'')])
     \<noteq> lit ''API key is missing. Please check your .env configuration.''
   \<and> requests (onSubmit API_TOKEN initial_state (lit ''London''))
       = [weather_url API_TOKEN (lit ''London'') (lit ''metric'')]"
proof -
  from credential_guard_unreachable [of initial_state "lit ''London''" "[Submit (lit ''London'')]"]
  have "onSubmit API_TOKEN initial_state (lit ''London'')
       = initial_state\<lparr>requests := requests initial_state
                            @ [weather_url API_TOKEN (lit ''London'') (unit initial_state)],
           pending := pending initial_state @ [AwaitCurrent (lit ''London'') (unit initial_state)]\<rparr>"
    and "fetchError (run initial_state [Submit (lit ''London'')])
       \<noteq> lit ''API key is missing. Please check your .env configuration.''"
    by blast+
  then show ?thesis by (simp add: initial_state_def)
qed

end
